theory Spec2Isabelle
  imports Complex_Main "HOL-Library.AList" "HOL-Library.Sublist"
begin

section \<open>Python values, exceptions and dictionaries\<close>

text \<open>
  The configuration dictionaries of \<^verbatim>\<open>config.py\<close> hold booleans, integers, strings and
  lists of strings. A caller's override may put any of these four kinds under any key, so
  every read of a configuration value below says what Python does for each kind.
\<close>

datatype pyval = PBool bool | PInt int | PStr string | PList "string list"

datatype py_error =
    ImportError
  | KeyError string
  | TypeError
  | AttributeError
  | OSError
  | ValidationError
  | EngineError

text \<open>A dict keeps its keys in insertion order; an association list with \<open>map_of\<close>.\<close>

type_synonym 'v pydict = "(string \<times> 'v) list"

text \<open>\<^verbatim>\<open>d[k]\<close>\<close>

definition getitem :: "'v pydict \<Rightarrow> string \<Rightarrow> py_error + 'v" where
  "getitem d k = (case map_of d k of None \<Rightarrow> Inl (KeyError k) | Some v \<Rightarrow> Inr v)"

text \<open>\<^verbatim>\<open>d.get(k, default)\<close>\<close>

definition dict_get :: "'v pydict \<Rightarrow> string \<Rightarrow> 'v \<Rightarrow> 'v" where
  "dict_get d k dflt = (case map_of d k of None \<Rightarrow> dflt | Some v \<Rightarrow> v)"

text \<open>\<^verbatim>\<open>d.update(e)\<close>: every item of \<open>e\<close> is stored into \<open>d\<close>, in the order of \<open>e\<close>.\<close>

definition dict_update :: "'v pydict \<Rightarrow> 'v pydict \<Rightarrow> 'v pydict" where
  "dict_update d e = fold (\<lambda>(k, v). AList.update k v) e d"

text \<open>Sequencing of a computation that may raise.\<close>

definition ebind :: "'e + 'a \<Rightarrow> ('a \<Rightarrow> 'e + 'b) \<Rightarrow> 'e + 'b" where
  "ebind m f = (case m of Inl e \<Rightarrow> Inl e | Inr x \<Rightarrow> f x)"

text \<open>Truth value of an object, as \<^verbatim>\<open>if v:\<close> and \<^verbatim>\<open>any([...])\<close> test it.\<close>

fun truthy :: "pyval \<Rightarrow> bool" where
  "truthy (PBool b) = b"
| "truthy (PInt i) = (i \<noteq> 0)"
| "truthy (PStr s) = (s \<noteq> [])"
| "truthy (PList l) = (l \<noteq> [])"

text \<open>
  \<^verbatim>\<open>str.lower()\<close> on characters below 256: the letters A to Z and the Latin-1 capitals
  (all of 192 to 222 but the multiplication sign 215) move up by 32.
\<close>

definition lower_char :: "char \<Rightarrow> char" where
  "lower_char c =
     (let n = (of_char c :: nat)
      in if (65 \<le> n \<and> n \<le> 90) \<or> (192 \<le> n \<and> n \<le> 222 \<and> n \<noteq> 215)
         then char_of (n + 32) else c)"

definition lower :: "string \<Rightarrow> string" where
  "lower s = map lower_char s"

text \<open>\<^verbatim>\<open>x in v\<close> for a string \<open>x\<close>: membership in a list, substring of a string.\<close>

fun py_in :: "string \<Rightarrow> pyval \<Rightarrow> py_error + bool" where
  "py_in x (PList l) = Inr (x \<in> set l)"
| "py_in x (PStr s) = Inr (sublist x s)"
| "py_in x (PBool b) = Inl TypeError"
| "py_in x (PInt i) = Inl TypeError"

section \<open>config.py\<close>

definition PROCESSING_CONFIG :: "pyval pydict" where
  "PROCESSING_CONFIG =
     [(''enable_ocr'', PBool True),
      (''ocr_languages'', PList [''en'']),
      (''enable_tables'', PBool True),
      (''table_cell_matching'', PBool True),
      (''generate_page_images'', PBool True),
      (''generate_picture_images'', PBool True),
      (''enable_picture_classification'', PBool True),
      (''image_resolution_scale'', PInt 2),
      (''enable_code_enrichment'', PBool False),
      (''enable_formula_enrichment'', PBool False),
      (''num_threads'', PInt 4),
      (''device'', PStr ''auto'')]"

definition OUTPUT_CONFIG :: "pyval pydict" where
  "OUTPUT_CONFIG =
     [(''output_directory'', PStr ''output''),
      (''save_json'', PBool True),
      (''save_markdown'', PBool True),
      (''save_html'', PBool True),
      (''save_text'', PBool True),
      (''save_summary'', PBool True),
      (''image_mode'', PStr ''placeholder''),
      (''json_indent'', PInt 2),
      (''json_ensure_ascii'', PBool False)]"

definition FILE_CONFIG :: "pyval pydict" where
  "FILE_CONFIG =
     [(''supported_extensions'', PList [''.pdf'']),
      (''max_file_size_mb'', PInt 100),
      (''create_backup'', PBool False)]"

definition LOGGING_CONFIG :: "pyval pydict" where
  "LOGGING_CONFIG =
     [(''level'', PStr ''INFO''),
      (''format'', PStr ''%(asctime)s - %(levelname)s - %(message)s''),
      (''save_logs'', PBool True),
      (''log_file'', PStr ''processing.log'')]"

section \<open>The world outside the processor\<close>

text \<open>
  A \<^verbatim>\<open>pathlib.Path\<close>, by the attributes the processors read: the path as a string, its
  final component, that component without its suffix, and the suffix.
\<close>

record pypath =
  path_str :: string
  path_name :: string
  path_stem :: string
  path_suffix :: string

datatype accelerator_device = AUTO | CPU | CUDA

text \<open>
  The engine's \<^verbatim>\<open>AcceleratorOptions\<close>: its constructor validates the number of threads, so
  the object holds an integer.
\<close>

record accelerator_options =
  num_threads :: int
  device :: accelerator_device

text \<open>The fields of the engine's \<^verbatim>\<open>PdfPipelineOptions\<close> that the processors assign.\<close>

record pipeline_options =
  do_ocr :: pyval
  do_table_structure :: pyval
  do_cell_matching :: pyval
  generate_page_images :: pyval
  generate_picture_images :: pyval
  do_picture_classification :: pyval
  images_scale :: pyval
  do_code_enrichment :: pyval
  do_formula_enrichment :: pyval
  accelerator :: accelerator_options

text \<open>
  The engine's document, by what the processors read from it. A table's
  \<^verbatim>\<open>export_to_dataframe()\<close> either raises or gives a frame with a shape; a picture is whether
  it has a \<^verbatim>\<open>classification\<close> attribute; a text item is its \<^verbatim>\<open>str\<close>.
\<close>

datatype table = Table (export_to_dataframe: "py_error + (nat \<times> nat)")

datatype picture = Picture (has_classification_attr: bool)

record document =
  num_pages :: nat
  tables :: "table list"
  pictures :: "picture list"
  texts :: "string list"
  export_to_dict :: string
  export_to_markdown_strict :: string

record conversion_result =
  status_name :: string
  result_document :: document

datatype image_ref_mode = PLACEHOLDER | EMBEDDED | REFERENCED

text \<open>
  What the processor cannot decide by itself: whether the engine imports, what
  \<^verbatim>\<open>PdfPipelineOptions()\<close> holds before any assignment, what the constructor of
  \<^verbatim>\<open>AcceleratorOptions\<close> makes of the value given as \<^verbatim>\<open>num_threads\<close> (the integer it
  keeps, or the exception it raises), the file system (the size of a file that exists), the
  engine's answer to \<^verbatim>\<open>convert\<close>, and which writes fail.
\<close>

record env =
  docling_available :: bool
  accelerator_available :: bool
  default_pipeline :: pipeline_options
  validate_num_threads :: "pyval \<Rightarrow> py_error + int"
  mkdir_fails :: "string \<Rightarrow> bool"
  st_size :: "string \<Rightarrow> nat option"
  engine_convert :: "pipeline_options \<Rightarrow> pypath \<Rightarrow> py_error + conversion_result"
  write_fails :: "string \<Rightarrow> bool"

section \<open>What a run leaves behind\<close>

record configuration_snapshot =
  ocr_enabled :: pyval
  table_extraction :: pyval
  image_processing :: pyval
  picture_classification :: pyval

text \<open>
  The metadata of a payload. The three fields that come from the clock and from rounding a
  float to two decimals (\<^verbatim>\<open>file_size_mb\<close>, \<^verbatim>\<open>processing_time_seconds\<close>,
  \<^verbatim>\<open>processing_timestamp\<close>) are not kept: nothing below reads them.
\<close>

record metadata =
  source_file :: string
  meta_num_pages :: nat
  processor_version :: string
  configuration :: configuration_snapshot

record statistics =
  num_tables :: nat
  num_pictures :: nat
  num_figures :: nat
  estimated_word_count :: nat

record table_summary =
  table_id :: nat
  rows :: pyval
  columns :: pyval
  has_headers :: pyval

record image_summary =
  image_id :: nat
  image_type :: string
  has_classification :: bool

record extraction_summary =
  pages :: nat
  summary_tables :: "table_summary list"
  summary_images :: "image_summary list"
  text_preview :: string

record payload =
  payload_metadata :: metadata
  payload_statistics :: statistics
  document_content :: string
  payload_extraction_summary :: extraction_summary

text \<open>The dictionary the minimal processor returns: the document with its metadata.\<close>

record processing_metadata =
  pm_source_file :: string
  pm_num_pages :: nat
  pm_ocr_enabled :: pyval
  pm_table_extraction_enabled :: pyval
  pm_picture_classification_enabled :: pyval

record document_data =
  dd_document :: string
  dd_processing_metadata :: processing_metadata

text \<open>
  A written file is its path and what was put into it. The serialisers themselves (JSON,
  the engine's Markdown and HTML export, the layout of the report) are not unfolded.
\<close>

datatype table_line = TableShape nat nat nat | TableStructureAvailable nat

datatype file_content =
    JsonDump payload pyval pyval
  | MarkdownExport image_ref_mode
  | HtmlExport image_ref_mode
  | TextExport string
  | SummaryReport payload
  | MinimalJsonDump document_data
  | MinimalSummary string nat nat nat "table_line list" string

datatype log_entry =
    InfoInitialized
  | WarnAcceleratorUnavailable
  | ErrFileNotFound string
  | ErrUnsupportedFileType string
  | ErrFileTooLarge rat pyval
  | InfoStarting string
  | ErrConversionFailed string
  | InfoCompleted
  | ErrProcessingFailed py_error
  | InfoSaved string string
  | ErrNotPdf string

record world =
  output_files :: "(string \<times> file_content) list"
  directories :: "string list"
  engine_calls :: "pypath list"
  log_entries :: "log_entry list"

definition write_file :: "string \<Rightarrow> file_content \<Rightarrow> world \<Rightarrow> world" where
  "write_file p c w = w\<lparr>output_files := output_files w @ [(p, c)]\<rparr>"

definition emit :: "log_entry \<Rightarrow> world \<Rightarrow> world" where
  "emit l w = w\<lparr>log_entries := log_entries w @ [l]\<rparr>"

text \<open>\<^verbatim>\<open>Path(dir) / name\<close>\<close>

definition path_join :: "string \<Rightarrow> string \<Rightarrow> string" where
  "path_join dir file = dir @ ''/'' @ file"

section \<open>advanced_processor.py: construction\<close>

datatype log_handler = StreamHandler | FileHandler string

record logger_setup =
  log_level :: nat
  log_format :: pyval
  log_handlers :: "log_handler list"

record processor =
  processing_config :: "pyval pydict"
  output_config :: "pyval pydict"
  file_config :: "pyval pydict"
  logger :: logger_setup
  output_dir :: string
  converter :: pipeline_options

definition upper_char :: "char \<Rightarrow> char" where
  "upper_char c =
     (let n = (of_char c :: nat)
      in if (97 \<le> n \<and> n \<le> 122) then char_of (n - 32) else c)"

text \<open>
  The level names of the \<^verbatim>\<open>logging\<close> module, as \<^verbatim>\<open>getattr(logging, name.upper())\<close>
  finds them. No character outside a to z has an upper case that occurs in a level name.
\<close>

definition logging_levels :: "nat pydict" where
  "logging_levels =
     [(''CRITICAL'', 50), (''FATAL'', 50), (''ERROR'', 40), (''WARNING'', 30),
      (''WARN'', 30), (''INFO'', 20), (''DEBUG'', 10), (''NOTSET'', 0)]"

definition level_of :: "pyval \<Rightarrow> py_error + nat" where
  "level_of v =
     (case v of
        PStr s \<Rightarrow>
          (case map_of logging_levels (map upper_char s) of
             None \<Rightarrow> Inl AttributeError
           | Some n \<Rightarrow> Inr n)
      | _ \<Rightarrow> Inl AttributeError)"

text \<open>
  \<^verbatim>\<open>_setup_logging\<close> reads the module's \<^verbatim>\<open>LOGGING_CONFIG\<close>, never the processor's
  configuration: it takes no argument from the override.
\<close>

definition setup_logging :: "env \<Rightarrow> py_error + logger_setup" where
  "setup_logging ev =
     ebind (getitem LOGGING_CONFIG ''level'') (\<lambda>lv.
     ebind (level_of lv) (\<lambda>n.
     ebind (getitem LOGGING_CONFIG ''format'') (\<lambda>fmt.
     ebind (getitem LOGGING_CONFIG ''save_logs'') (\<lambda>sl.
       if truthy sl then
         ebind (getitem LOGGING_CONFIG ''log_file'') (\<lambda>lf.
           case lf of
             PStr f \<Rightarrow>
               if write_fails ev f then Inl OSError
               else Inr \<lparr>log_level = n, log_format = fmt,
                         log_handlers = [StreamHandler, FileHandler f]\<rparr>
           | _ \<Rightarrow> Inl TypeError)
       else Inr \<lparr>log_level = n, log_format = fmt, log_handlers = [StreamHandler]\<rparr>))))"

text \<open>Lines 43 to 51 of \<^verbatim>\<open>__init__\<close>: the three copies and the three updates.\<close>

definition merge_config ::
  "(pyval pydict) pydict option \<Rightarrow> pyval pydict \<times> pyval pydict \<times> pyval pydict" where
  "merge_config config_override =
     (case config_override of
        None \<Rightarrow> (PROCESSING_CONFIG, OUTPUT_CONFIG, FILE_CONFIG)
      | Some ov \<Rightarrow>
          if ov \<noteq> [] then
            (dict_update PROCESSING_CONFIG (dict_get ov ''processing'' []),
             dict_update OUTPUT_CONFIG (dict_get ov ''output'' []),
             dict_update FILE_CONFIG (dict_get ov ''file'' []))
          else (PROCESSING_CONFIG, OUTPUT_CONFIG, FILE_CONFIG))"

text \<open>\<^verbatim>\<open>m.get(v, default)\<close> on a dict with string keys: a list is unhashable.\<close>

definition get_by_value :: "'a pydict \<Rightarrow> pyval \<Rightarrow> 'a \<Rightarrow> py_error + 'a" where
  "get_by_value m v dflt =
     (case v of
        PStr s \<Rightarrow> Inr (dict_get m s dflt)
      | PList l \<Rightarrow> Inl TypeError
      | _ \<Rightarrow> Inr dflt)"

definition device_map :: "accelerator_device pydict" where
  "device_map = [(''auto'', AUTO), (''cpu'', CPU), (''cuda'', CUDA)]"

text \<open>\<^verbatim>\<open>_setup_converter\<close>, up to the performance settings.\<close>

definition configure_pipeline ::
  "pyval pydict \<Rightarrow> pipeline_options \<Rightarrow> py_error + pipeline_options" where
  "configure_pipeline pc po0 =
     ebind (getitem pc ''enable_ocr'') (\<lambda>ocr.
     ebind (getitem pc ''enable_ocr'') (\<lambda>ocr'.
     ebind (getitem pc ''enable_tables'') (\<lambda>tab.
     ebind (getitem pc ''enable_tables'') (\<lambda>tab'.
     ebind (if truthy tab'
            then ebind (getitem pc ''table_cell_matching'') (\<lambda>cm.
                   Inr (po0\<lparr>do_ocr := ocr, do_table_structure := tab, do_cell_matching := cm\<rparr>))
            else Inr (po0\<lparr>do_ocr := ocr, do_table_structure := tab\<rparr>)) (\<lambda>po1.
     ebind (getitem pc ''generate_page_images'') (\<lambda>gpage.
     ebind (getitem pc ''generate_picture_images'') (\<lambda>gpic.
     ebind (getitem pc ''enable_picture_classification'') (\<lambda>cls.
     ebind (getitem pc ''generate_page_images'') (\<lambda>gpage'.
     ebind (if truthy gpage'
            then ebind (getitem pc ''image_resolution_scale'') (\<lambda>sc.
                   Inr (po1\<lparr>generate_page_images := gpage, generate_picture_images := gpic,
                            do_picture_classification := cls, images_scale := sc\<rparr>))
            else Inr (po1\<lparr>generate_page_images := gpage, generate_picture_images := gpic,
                          do_picture_classification := cls\<rparr>)) (\<lambda>po2.
     ebind (getitem pc ''enable_code_enrichment'') (\<lambda>code.
     ebind (getitem pc ''enable_formula_enrichment'') (\<lambda>formula.
       Inr (po2\<lparr>do_code_enrichment := code, do_formula_enrichment := formula\<rparr>)))))))))))))"

text \<open>
  The performance settings: when the accelerator module does not import, the options stay
  as they are and a warning is logged; any other exception leaves \<^verbatim>\<open>_setup_converter\<close>,
  that of a device that cannot be a key and that of the constructor refusing the number of
  threads among them.
\<close>

definition configure_accelerator ::
  "env \<Rightarrow> pyval pydict \<Rightarrow> pipeline_options \<Rightarrow> world \<Rightarrow> (py_error + pipeline_options) \<times> world" where
  "configure_accelerator ev pc po w =
     (if \<not> accelerator_available ev then (Inr po, emit WarnAcceleratorUnavailable w)
      else
        (ebind (getitem pc ''device'') (\<lambda>dv.
         ebind (get_by_value device_map dv AUTO) (\<lambda>d.
         ebind (getitem pc ''num_threads'') (\<lambda>nt.
         ebind (validate_num_threads ev nt) (\<lambda>n.
           Inr (po\<lparr>accelerator := \<lparr>num_threads = n, device = d\<rparr>\<rparr>))))), w))"

definition setup_converter ::
  "env \<Rightarrow> pyval pydict \<Rightarrow> world \<Rightarrow> (py_error + pipeline_options) \<times> world" where
  "setup_converter ev pc w =
     (case configure_pipeline pc (default_pipeline ev) of
        Inl e \<Rightarrow> (Inl e, w)
      | Inr po \<Rightarrow> configure_accelerator ev pc po w)"

definition mkdir :: "string \<Rightarrow> world \<Rightarrow> world" where
  "mkdir d w = (if d \<in> set (directories w) then w else w\<lparr>directories := directories w @ [d]\<rparr>)"

definition init ::
  "env \<Rightarrow> (pyval pydict) pydict option \<Rightarrow> world \<Rightarrow> (py_error + processor) \<times> world" where
  "init ev config_override w =
     (if \<not> docling_available ev then (Inl ImportError, w)
      else
        (case merge_config config_override of (pc, oc, fc) \<Rightarrow>
           (case setup_logging ev of
              Inl e \<Rightarrow> (Inl e, w)
            | Inr lg \<Rightarrow>
                (case getitem oc ''output_directory'' of
                   Inl e \<Rightarrow> (Inl e, w)
                 | Inr (PStr dir) \<Rightarrow>
                     if mkdir_fails ev dir then (Inl OSError, w)
                     else
                       (case setup_converter ev pc (mkdir dir w) of
                          (Inl e, w') \<Rightarrow> (Inl e, w')
                        | (Inr po, w') \<Rightarrow>
                            (Inr \<lparr>processing_config = pc, output_config = oc, file_config = fc,
                                  logger = lg, output_dir = dir, converter = po\<rparr>,
                             emit InfoInitialized w'))
                 | Inr _ \<Rightarrow> (Inl TypeError, w)))))"

section \<open>advanced_processor.py: validation\<close>

text \<open>
  \<^verbatim>\<open>st_size / (1024 * 1024)\<close> is a float: the quotient of two integers, rounded to the
  nearest number with a significand of 53 bits, ties to the even one. Dividing by a power
  of two only moves the exponent, so the float is the rounded size over \<open>2 ^ 20\<close>.
\<close>

fun bit_length :: "nat \<Rightarrow> nat" where
  "bit_length n = (if n = 0 then 0 else Suc (bit_length (n div 2)))"

declare bit_length.simps [simp del]

definition nearest_double :: "nat \<Rightarrow> nat" where
  "nearest_double n =
     (let e = bit_length n - 53; q = n div 2 ^ e; r = n mod 2 ^ e; half = 2 ^ (e - 1)
      in if e = 0 then n
         else if half < r \<or> (r = half \<and> odd q) then (q + 1) * 2 ^ e
         else q * 2 ^ e)"

definition file_size_mb :: "nat \<Rightarrow> rat" where
  "file_size_mb n = of_nat (nearest_double n) / 1048576"

text \<open>\<^verbatim>\<open>x > v\<close> for a float \<open>x\<close>: exact against an integer, a \<^verbatim>\<open>TypeError\<close> against a string or a list.\<close>

fun float_gt :: "rat \<Rightarrow> pyval \<Rightarrow> py_error + bool" where
  "float_gt x (PInt m) = Inr (of_int m < x)"
| "float_gt x (PBool b) = Inr ((if b then 1 else 0) < x)"
| "float_gt x (PStr s) = Inl TypeError"
| "float_gt x (PList l) = Inl TypeError"

definition validate_input_file ::
  "env \<Rightarrow> processor \<Rightarrow> pypath \<Rightarrow> world \<Rightarrow> (py_error + bool) \<times> world" where
  "validate_input_file ev p pdf_file w =
     (case st_size ev (path_str pdf_file) of
        None \<Rightarrow> (Inr False, emit (ErrFileNotFound (path_str pdf_file)) w)
      | Some n \<Rightarrow>
          (case ebind (getitem (file_config p) ''supported_extensions'')
                  (py_in (lower (path_suffix pdf_file))) of
             Inl e \<Rightarrow> (Inl e, w)
           | Inr False \<Rightarrow> (Inr False, emit (ErrUnsupportedFileType (path_suffix pdf_file)) w)
           | Inr True \<Rightarrow>
               (case getitem (file_config p) ''max_file_size_mb'' of
                  Inl e \<Rightarrow> (Inl e, w)
                | Inr mx \<Rightarrow>
                    (case float_gt (file_size_mb n) mx of
                       Inl e \<Rightarrow> (Inl e, w)
                     | Inr True \<Rightarrow> (Inr False, emit (ErrFileTooLarge (file_size_mb n) mx) w)
                     | Inr False \<Rightarrow> (Inr True, w)))))"

section \<open>advanced_processor.py: the result payload\<close>

fun table_summaries :: "nat \<Rightarrow> table list \<Rightarrow> table_summary list" where
  "table_summaries i [] = []"
| "table_summaries i (t # ts) =
     (case export_to_dataframe t of
        Inr (r, c) \<Rightarrow>
          \<lparr>table_id = i + 1, rows = PInt (int r), columns = PInt (int c),
           has_headers = PBool True\<rparr>
      | Inl e \<Rightarrow>
          \<lparr>table_id = i + 1, rows = PStr ''unknown'', columns = PStr ''unknown'',
           has_headers = PStr ''unknown''\<rparr>)
     # table_summaries (i + 1) ts"

fun image_summaries :: "nat \<Rightarrow> picture list \<Rightarrow> image_summary list" where
  "image_summaries i [] = []"
| "image_summaries i (pic # pics) =
     \<lparr>image_id = i + 1, image_type = ''picture'',
      has_classification = has_classification_attr pic\<rparr>
     # image_summaries (i + 1) pics"

definition generate_extraction_summary :: "document \<Rightarrow> extraction_summary" where
  "generate_extraction_summary doc =
     \<lparr>pages = num_pages doc,
      summary_tables = table_summaries 0 (tables doc),
      summary_images = image_summaries 0 (pictures doc),
      text_preview = take 500 (export_to_markdown_strict doc) @ ''...''\<rparr>"

text \<open>\<^verbatim>\<open>len(s.split())\<close>: the number of maximal runs of characters that are not white space.\<close>

definition is_space :: "char \<Rightarrow> bool" where
  "is_space c =
     (let n = (of_char c :: nat)
      in (9 \<le> n \<and> n \<le> 13) \<or> (28 \<le> n \<and> n \<le> 32) \<or> n = 133 \<or> n = 160)"

fun count_words :: "bool \<Rightarrow> string \<Rightarrow> nat" where
  "count_words in_word [] = 0"
| "count_words in_word (c # cs) =
     (if is_space c then count_words False cs
      else (if in_word then 0 else 1) + count_words True cs)"

definition extract_comprehensive_data ::
  "env \<Rightarrow> processor \<Rightarrow> document \<Rightarrow> pypath \<Rightarrow> py_error + payload" where
  "extract_comprehensive_data ev p doc pdf_file =
     (case st_size ev (path_str pdf_file) of
        None \<Rightarrow> Inl OSError
      | Some n \<Rightarrow>
          ebind (getitem (processing_config p) ''enable_ocr'') (\<lambda>ocr.
          ebind (getitem (processing_config p) ''enable_tables'') (\<lambda>tab.
          ebind (getitem (processing_config p) ''generate_picture_images'') (\<lambda>img.
          ebind (getitem (processing_config p) ''enable_picture_classification'') (\<lambda>cls.
            Inr \<lparr>payload_metadata =
                   \<lparr>source_file = path_str pdf_file,
                    meta_num_pages = num_pages doc,
                    processor_version = ''Advanced Docling Processor v1.0'',
                    configuration =
                      \<lparr>ocr_enabled = ocr, table_extraction = tab,
                       image_processing = img, picture_classification = cls\<rparr>\<rparr>,
                 payload_statistics =
                   \<lparr>num_tables = length (tables doc),
                    num_pictures = length (pictures doc),
                    num_figures = length (filter (sublist ''Figure'') (texts doc)),
                    estimated_word_count = count_words False (export_to_markdown_strict doc)\<rparr>,
                 document_content = export_to_dict doc,
                 payload_extraction_summary = generate_extraction_summary doc\<rparr>)))))"

section \<open>advanced_processor.py: writing the outputs\<close>

text \<open>
  A step of the writer takes the world and gives it back with either an exception or a
  value. An exception ends the sequence: what was done before it stays done.
\<close>

definition sbind ::
  "('s \<Rightarrow> ('e + 'a) \<times> 's) \<Rightarrow> ('a \<Rightarrow> 's \<Rightarrow> ('e + 'b) \<times> 's) \<Rightarrow> 's \<Rightarrow> ('e + 'b) \<times> 's" where
  "sbind m f s = (case m s of (Inl e, s') \<Rightarrow> (Inl e, s') | (Inr x, s') \<Rightarrow> f x s')"

definition lift :: "'e + 'a \<Rightarrow> 's \<Rightarrow> ('e + 'a) \<times> 's" where
  "lift r s = (r, s)"

text \<open>
  One artifact: the write raises when the environment says so and then leaves no file;
  otherwise the file is there and the log says so.
\<close>

definition try_write ::
  "env \<Rightarrow> string \<Rightarrow> file_content \<Rightarrow> string \<Rightarrow> world \<Rightarrow> (py_error + unit) \<times> world" where
  "try_write ev path c kind w =
     (if write_fails ev path then (Inl OSError, w)
      else (Inr (), emit (InfoSaved kind path) (write_file path c w)))"

definition image_mode_map :: "image_ref_mode pydict" where
  "image_mode_map =
     [(''placeholder'', PLACEHOLDER), (''embedded'', EMBEDDED), (''referenced'', REFERENCED)]"

definition save_all_outputs ::
  "env \<Rightarrow> processor \<Rightarrow> document \<Rightarrow> pypath \<Rightarrow> payload \<Rightarrow> world \<Rightarrow> (py_error + unit) \<times> world" where
  "save_all_outputs ev p doc pdf_file extracted_data =
     sbind (lift (getitem (output_config p) ''save_json'')) (\<lambda>sj.
     sbind (if truthy sj
            then sbind (lift (getitem (output_config p) ''json_indent'')) (\<lambda>ind.
                 sbind (lift (getitem (output_config p) ''json_ensure_ascii'')) (\<lambda>ea.
                   try_write ev (path_join (output_dir p) (path_stem pdf_file @ ''.json''))
                     (JsonDump extracted_data ind ea) ''JSON''))
            else lift (Inr ())) (\<lambda>_.
     sbind (lift (ebind (getitem (output_config p) ''image_mode'')
                    (\<lambda>v. get_by_value image_mode_map v PLACEHOLDER))) (\<lambda>image_mode.
     sbind (lift (getitem (output_config p) ''save_markdown'')) (\<lambda>sm.
     sbind (if truthy sm
            then try_write ev (path_join (output_dir p) (path_stem pdf_file @ ''.md''))
                   (MarkdownExport image_mode) ''Markdown''
            else lift (Inr ())) (\<lambda>_.
     sbind (lift (getitem (output_config p) ''save_html'')) (\<lambda>sh.
     sbind (if truthy sh
            then try_write ev (path_join (output_dir p) (path_stem pdf_file @ ''.html''))
                   (HtmlExport image_mode) ''HTML''
            else lift (Inr ())) (\<lambda>_.
     sbind (lift (getitem (output_config p) ''save_text'')) (\<lambda>st.
     sbind (if truthy st
            then try_write ev (path_join (output_dir p) (path_stem pdf_file @ ''.txt''))
                   (TextExport (export_to_markdown_strict doc)) ''Text''
            else lift (Inr ())) (\<lambda>_.
     sbind (lift (getitem (output_config p) ''save_summary'')) (\<lambda>ss.
       if truthy ss
       then try_write ev (path_join (output_dir p) (path_stem pdf_file @ ''_report.txt''))
              (SummaryReport extracted_data) ''Summary''
       else lift (Inr ())))))))))))"

section \<open>advanced_processor.py: process_pdf\<close>

text \<open>The condition of line 181: \<^verbatim>\<open>any\<close> over four flags of the output configuration.\<close>

definition any_output_flag :: "processor \<Rightarrow> py_error + bool" where
  "any_output_flag p =
     ebind (getitem (output_config p) ''save_json'') (\<lambda>sj.
     ebind (getitem (output_config p) ''save_markdown'') (\<lambda>sm.
     ebind (getitem (output_config p) ''save_html'') (\<lambda>sh.
     ebind (getitem (output_config p) ''save_text'') (\<lambda>st.
       Inr (truthy sj \<or> truthy sm \<or> truthy sh \<or> truthy st)))))"

definition call_engine :: "pypath \<Rightarrow> world \<Rightarrow> world" where
  "call_engine pdf_file w = w\<lparr>engine_calls := engine_calls w @ [pdf_file]\<rparr>"

text \<open>The body of the \<^verbatim>\<open>try\<close>: an exception leaves it through \<open>Inl\<close>.\<close>

definition process_body ::
  "env \<Rightarrow> processor \<Rightarrow> pypath \<Rightarrow> world \<Rightarrow> (py_error + payload option) \<times> world" where
  "process_body ev p pdf_file w =
     (case engine_convert ev (converter p) pdf_file of
        Inl e \<Rightarrow> (Inl e, call_engine pdf_file w)
      | Inr result \<Rightarrow>
          if status_name result \<noteq> ''SUCCESS''
          then (Inr None, emit (ErrConversionFailed (status_name result)) (call_engine pdf_file w))
          else
            (case extract_comprehensive_data ev p (result_document result) pdf_file of
               Inl e \<Rightarrow> (Inl e, call_engine pdf_file w)
             | Inr extracted_data \<Rightarrow>
                 (case any_output_flag p of
                    Inl e \<Rightarrow> (Inl e, call_engine pdf_file w)
                  | Inr flag \<Rightarrow>
                      (case (if flag
                             then save_all_outputs ev p (result_document result) pdf_file
                                    extracted_data (call_engine pdf_file w)
                             else (Inr (), call_engine pdf_file w)) of
                         (Inl e, w') \<Rightarrow> (Inl e, w')
                       | (Inr u, w') \<Rightarrow> (Inr (Some extracted_data), emit InfoCompleted w')))))"

text \<open>
  The validation stands before the \<^verbatim>\<open>try\<close>, so an exception of its own leaves
  \<^verbatim>\<open>process_pdf\<close>; every exception of the body is logged and becomes \<^verbatim>\<open>None\<close>.
\<close>

definition process_pdf ::
  "env \<Rightarrow> processor \<Rightarrow> pypath \<Rightarrow> world \<Rightarrow> (py_error + payload option) \<times> world" where
  "process_pdf ev p pdf_file w =
     (case validate_input_file ev p pdf_file w of
        (Inl e, w') \<Rightarrow> (Inl e, w')
      | (Inr False, w') \<Rightarrow> (Inr None, w')
      | (Inr True, w') \<Rightarrow>
          (case process_body ev p pdf_file (emit (InfoStarting (path_name pdf_file)) w') of
             (Inl e, w'') \<Rightarrow> (Inr None, emit (ErrProcessingFailed e) w'')
           | (Inr r, w'') \<Rightarrow> (Inr r, w'')))"

section \<open>pdf_processor.py: the minimal processor\<close>

record minimal_processor =
  m_output_dir :: string
  m_pipeline_options :: pipeline_options

definition minimal_init ::
  "env \<Rightarrow> bool \<Rightarrow> bool \<Rightarrow> world \<Rightarrow> (py_error + minimal_processor) \<times> world" where
  "minimal_init ev enable_ocr enable_tables w =
     (if mkdir_fails ev ''output'' then (Inl OSError, w)
      else
        (Inr \<lparr>m_output_dir = ''output'',
              m_pipeline_options =
                (if enable_tables
                 then (default_pipeline ev)\<lparr>do_ocr := PBool enable_ocr,
                        do_table_structure := PBool enable_tables,
                        do_cell_matching := PBool True\<rparr>
                 else (default_pipeline ev)\<lparr>do_ocr := PBool enable_ocr,
                        do_table_structure := PBool enable_tables\<rparr>)
                \<lparr>generate_page_images := PBool True, generate_picture_images := PBool True,
                 do_picture_classification := PBool True\<rparr>\<rparr>,
         emit InfoInitialized (mkdir ''output'' w)))"

fun table_lines :: "nat \<Rightarrow> table list \<Rightarrow> table_line list" where
  "table_lines i [] = []"
| "table_lines i (t # ts) =
     (case export_to_dataframe t of
        Inr (r, c) \<Rightarrow> TableShape i r c
      | Inl e \<Rightarrow> TableStructureAvailable i)
     # table_lines (i + 1) ts"

definition minimal_save_outputs ::
  "env \<Rightarrow> minimal_processor \<Rightarrow> document \<Rightarrow> pypath \<Rightarrow> document_data \<Rightarrow> world
     \<Rightarrow> (py_error + unit) \<times> world" where
  "minimal_save_outputs ev p doc pdf_file data =
     sbind (try_write ev (path_join (m_output_dir p) (path_stem pdf_file @ ''.json''))
              (MinimalJsonDump data) ''JSON'') (\<lambda>_.
     sbind (try_write ev (path_join (m_output_dir p) (path_stem pdf_file @ ''.md''))
              (MarkdownExport PLACEHOLDER) ''Markdown'') (\<lambda>_.
     sbind (try_write ev (path_join (m_output_dir p) (path_stem pdf_file @ ''.html''))
              (HtmlExport PLACEHOLDER) ''HTML'') (\<lambda>_.
       try_write ev (path_join (m_output_dir p) (path_stem pdf_file @ ''_summary.txt''))
         (MinimalSummary (path_name pdf_file) (num_pages doc) (length (tables doc))
            (length (pictures doc)) (table_lines 1 (tables doc))
            (take 500 (export_to_markdown_strict doc) @ ''...'')) ''Summary'')))"

definition minimal_process_body ::
  "env \<Rightarrow> minimal_processor \<Rightarrow> pypath \<Rightarrow> world \<Rightarrow> (py_error + document_data option) \<times> world" where
  "minimal_process_body ev p pdf_file w =
     (case engine_convert ev (m_pipeline_options p) pdf_file of
        Inl e \<Rightarrow> (Inl e, call_engine pdf_file w)
      | Inr result \<Rightarrow>
          if status_name result \<noteq> ''SUCCESS''
          then (Inr None, emit (ErrConversionFailed (status_name result)) (call_engine pdf_file w))
          else
            (let doc = result_document result;
                 data = \<lparr>dd_document = export_to_dict doc,
                         dd_processing_metadata =
                           \<lparr>pm_source_file = path_str pdf_file,
                            pm_num_pages = num_pages doc,
                            pm_ocr_enabled = do_ocr (m_pipeline_options p),
                            pm_table_extraction_enabled = do_table_structure (m_pipeline_options p),
                            pm_picture_classification_enabled =
                              do_picture_classification (m_pipeline_options p)\<rparr>\<rparr>
             in (case minimal_save_outputs ev p doc pdf_file data
                        (emit InfoCompleted (call_engine pdf_file w)) of
                   (Inl e, w') \<Rightarrow> (Inl e, w')
                 | (Inr u, w') \<Rightarrow> (Inr (Some data), w'))))"

definition minimal_process_pdf ::
  "env \<Rightarrow> minimal_processor \<Rightarrow> pypath \<Rightarrow> world \<Rightarrow> document_data option \<times> world" where
  "minimal_process_pdf ev p pdf_file w =
     (case st_size ev (path_str pdf_file) of
        None \<Rightarrow> (None, emit (ErrFileNotFound (path_str pdf_file)) w)
      | Some n \<Rightarrow>
          if \<not> lower (path_suffix pdf_file) = ''.pdf''
          then (None, emit (ErrNotPdf (path_str pdf_file)) w)
          else
            (case minimal_process_body ev p pdf_file (emit (InfoStarting (path_name pdf_file)) w) of
               (Inl e, w') \<Rightarrow> (None, emit (ErrProcessingFailed e) w')
             | (Inr r, w') \<Rightarrow> (r, w')))"

section \<open>Notions used to state the properties\<close>

text \<open>The override's dictionary for one group, empty when there is none.\<close>

definition override_group :: "(pyval pydict) pydict option \<Rightarrow> string \<Rightarrow> pyval pydict" where
  "override_group config_override g =
     (case config_override of None \<Rightarrow> [] | Some ov \<Rightarrow> dict_get ov g [])"

text \<open>Membership that ignores case on both sides.\<close>

definition case_insensitive_member :: "string \<Rightarrow> string list \<Rightarrow> bool" where
  "case_insensitive_member x l = (lower x \<in> set (map lower l))"

text \<open>
  The artifacts the writer is asked for, in the order of the source: each enabled flag
  with the path and the content of its file.
\<close>

definition requested_outputs ::
  "processor \<Rightarrow> document \<Rightarrow> pypath \<Rightarrow> payload \<Rightarrow> (string \<times> file_content) list" where
  "requested_outputs p doc pdf_file extracted_data =
     (let oc = output_config p;
          on = (\<lambda>k. case map_of oc k of Some v \<Rightarrow> truthy v | None \<Rightarrow> False);
          mode = (case map_of oc ''image_mode'' of
                    Some (PStr s) \<Rightarrow> dict_get image_mode_map s PLACEHOLDER
                  | _ \<Rightarrow> PLACEHOLDER);
          base = path_stem pdf_file
      in (if on ''save_json''
          then [(path_join (output_dir p) (base @ ''.json''),
                 JsonDump extracted_data (dict_get oc ''json_indent'' (PInt 0))
                   (dict_get oc ''json_ensure_ascii'' (PBool True)))]
          else [])
       @ (if on ''save_markdown''
          then [(path_join (output_dir p) (base @ ''.md''), MarkdownExport mode)] else [])
       @ (if on ''save_html''
          then [(path_join (output_dir p) (base @ ''.html''), HtmlExport mode)] else [])
       @ (if on ''save_text''
          then [(path_join (output_dir p) (base @ ''.txt''),
                 TextExport (export_to_markdown_strict doc))]
          else [])
       @ (if on ''save_summary''
          then [(path_join (output_dir p) (base @ ''_report.txt''), SummaryReport extracted_data)]
          else []))"

section \<open>A sample run\<close>

definition example_pipeline :: pipeline_options where
  "example_pipeline =
     \<lparr>do_ocr = PBool True, do_table_structure = PBool True, do_cell_matching = PBool True,
      generate_page_images = PBool False, generate_picture_images = PBool False,
      do_picture_classification = PBool False, images_scale = PInt 1,
      do_code_enrichment = PBool False, do_formula_enrichment = PBool False,
      accelerator = \<lparr>num_threads = 4, device = AUTO\<rparr>\<rparr>"

text \<open>Three tables, the second of which cannot be exported, and two pictures.\<close>

definition example_document :: document where
  "example_document =
     \<lparr>num_pages = 2,
      tables = [Table (Inr (4, 3)), Table (Inl EngineError), Table (Inr (2, 5))],
      pictures = [Picture True, Picture False],
      texts = [''Figure 1: overview'', ''Introduction''],
      export_to_dict = ''{}'',
      export_to_markdown_strict = ''Introduction to the report''\<rparr>"

definition example_path :: pypath where
  "example_path =
     \<lparr>path_str = ''docs/report.PDF'', path_name = ''report.PDF'',
      path_stem = ''report'', path_suffix = ''.PDF''\<rparr>"

definition example_env :: env where
  "example_env =
     \<lparr>docling_available = True,
      accelerator_available = True,
      default_pipeline = example_pipeline,
      validate_num_threads = (\<lambda>v. case v of PInt n \<Rightarrow> Inr n | _ \<Rightarrow> Inl ValidationError),
      mkdir_fails = (\<lambda>d. False),
      st_size = (\<lambda>f. if f = ''docs/report.PDF'' then Some 2048 else None),
      engine_convert =
        (\<lambda>po f. Inr \<lparr>status_name = ''SUCCESS'', result_document = example_document\<rparr>),
      write_fails = (\<lambda>f. False)\<rparr>"

definition empty_world :: world where
  "empty_world = \<lparr>output_files = [], directories = [], engine_calls = [], log_entries = []\<rparr>"

text \<open>The processor that \<open>init\<close> builds from an override in the sample environment.\<close>

definition example_processor :: "(pyval pydict) pydict option \<Rightarrow> processor" where
  "example_processor config_override = projr (fst (init example_env config_override empty_world))"

text \<open>The payload of the sample document under the default configuration.\<close>

definition example_payload :: payload where
  "example_payload =
     projr (extract_comprehensive_data example_env (example_processor None) example_document
              example_path)"

section \<open>Facts about dictionaries and the float of a size\<close>

lemma ebind_Inr [simp]: "ebind (Inr x) f = f x" by (simp add: ebind_def)
lemma ebind_Inl [simp]: "ebind (Inl e) f = Inl e" by (simp add: ebind_def)

lemma ebind_eq_Inr: "ebind m f = Inr y \<longleftrightarrow> (\<exists>x. m = Inr x \<and> f x = Inr y)"
  by (cases m) simp_all

lemma map_of_fold_update:
  "map_of (fold (\<lambda>(k, v). AList.update k v) e d) = map_of d ++ map_of (rev e)"
proof (induction e arbitrary: d)
  case Nil
  show ?case by simp
next
  case (Cons kv e)
  obtain k v where kv: "kv = (k, v)" by (cases kv)
  have "map_of (fold (\<lambda>(k, v). AList.update k v) (kv # e) d)
        = map_of (AList.update k v d) ++ map_of (rev e)"
    using Cons.IH [of "AList.update k v d"] by (simp add: kv)
  also have "\<dots> = map_of d ++ map_of (rev (kv # e))"
    by (simp add: kv update_conv' map_add_def fun_eq_iff split: option.splits)
  finally show ?case .
qed

lemma map_of_dict_update: "map_of (dict_update d e) = map_of d ++ map_of (rev e)"
  by (simp add: dict_update_def map_of_fold_update)

lemma map_of_rev_distinct: "distinct (map fst e) \<Longrightarrow> map_of (rev e) = map_of e"
  by (rule map_of_inject_set [THEN iffD2]) (simp_all add: distinct_rev rev_map [symmetric])

lemma bit_length_le: "n < 2 ^ k \<Longrightarrow> bit_length n \<le> k"
proof (induction n arbitrary: k rule: bit_length.induct)
  case (1 n)
  show ?case
  proof (cases "n = 0")
    case True
    then show ?thesis by (simp add: bit_length.simps)
  next
    case False
    then obtain j where k: "k = Suc j" using "1.prems" by (cases k) auto
    have "n div 2 < 2 ^ j" using "1.prems" k by auto
    from "1.IH" [OF False this] show ?thesis
      using False k by (subst bit_length.simps) simp
  qed
qed

lemma nearest_double_exact: "n < 2 ^ 53 \<Longrightarrow> nearest_double n = n"
  using bit_length_le [of n 53] by (simp add: nearest_double_def Let_def)

lemma bit_length_eq: "2 ^ k \<le> n \<Longrightarrow> n < 2 ^ Suc k \<Longrightarrow> bit_length n = Suc k"
proof (induction k arbitrary: n)
  case 0
  then have "n = 1" by simp
  then show ?case by (simp add: bit_length.simps)
next
  case (Suc k)
  have "2 ^ k \<le> n div 2" "n div 2 < 2 ^ Suc k" using Suc.prems by auto
  from Suc.IH [OF this] show ?case using Suc.prems
    by (subst bit_length.simps) auto
qed

lemma nearest_double_tie: "nearest_double 9007199254740993 = 9007199254740992"
proof -
  have "bit_length 9007199254740993 = Suc 53"
    by (rule bit_length_eq) simp_all
  then show ?thesis by (simp add: nearest_double_def Let_def)
qed

section \<open>Facts about the world\<close>

lemma emit_fields [simp]:
  "output_files (emit l w) = output_files w"
  "engine_calls (emit l w) = engine_calls w"
  "directories (emit l w) = directories w"
  "log_entries (emit l w) = log_entries w @ [l]"
  by (simp_all add: emit_def)

lemma write_file_fields [simp]:
  "output_files (write_file f c w) = output_files w @ [(f, c)]"
  "engine_calls (write_file f c w) = engine_calls w"
  "directories (write_file f c w) = directories w"
  "log_entries (write_file f c w) = log_entries w"
  by (simp_all add: write_file_def)

lemma call_engine_fields [simp]:
  "output_files (call_engine f w) = output_files w"
  "engine_calls (call_engine f w) = engine_calls w @ [f]"
  "directories (call_engine f w) = directories w"
  "log_entries (call_engine f w) = log_entries w"
  by (simp_all add: call_engine_def)

lemma lift_apply [simp]: "lift r s = (r, s)"
  by (simp add: lift_def)

lemma sbind_lift_Inr [simp]: "sbind (lift (Inr x)) f s = f x s"
  by (simp add: sbind_def)

lemma sbind_lift_Inl [simp]: "sbind (lift (Inl e)) f s = (Inl e, s)"
  by (simp add: sbind_def)

lemma sbind_preserves:
  assumes "\<And>s. g (snd (m s)) = g s" and "\<And>x s. g (snd (f x s)) = g s"
  shows "g (snd (sbind m f s)) = g s"
proof (cases "m s")
  case (Pair r s')
  have s': "g s' = g s" using assms(1) [of s] Pair by simp
  show ?thesis
  proof (cases r)
    case (Inl e)
    then show ?thesis using Pair s' by (simp add: sbind_def)
  next
    case (Inr x)
    then show ?thesis using Pair s' assms(2) [of x s'] by (simp add: sbind_def)
  qed
qed

lemma try_write_engine_calls [simp]:
  "engine_calls (snd (try_write ev f c kind w)) = engine_calls w"
  by (simp add: try_write_def)

lemma minimal_save_outputs_engine_calls:
  "engine_calls (snd (minimal_save_outputs ev p doc pdf_file data w)) = engine_calls w"
  unfolding minimal_save_outputs_def
  by (intro sbind_preserves try_write_engine_calls)

section \<open>The extraction summary\<close>

lemma table_summaries_length: "length (table_summaries i ts) = length ts"
  by (induction ts arbitrary: i) simp_all

lemma table_summaries_nth:
  "j < length ts \<Longrightarrow>
   table_summaries i ts ! j =
     (case export_to_dataframe (ts ! j) of
        Inr (r, c) \<Rightarrow>
          \<lparr>table_id = i + j + 1, rows = PInt (int r), columns = PInt (int c),
           has_headers = PBool True\<rparr>
      | Inl e \<Rightarrow>
          \<lparr>table_id = i + j + 1, rows = PStr ''unknown'', columns = PStr ''unknown'',
           has_headers = PStr ''unknown''\<rparr>)"
proof (induction ts arbitrary: i j)
  case Nil
  then show ?case by simp
next
  case (Cons t ts)
  show ?case
  proof (cases j)
    case 0
    then show ?thesis by (simp split: sum.splits)
  next
    case (Suc j')
    then have "j' < length ts" using Cons.prems by simp
    from Cons.IH [OF this, of "i + 1"] show ?thesis using Suc by (simp split: sum.splits)
  qed
qed

lemma extract_comprehensive_data_Inr:
  assumes "extract_comprehensive_data ev p doc pdf_file = Inr data"
  shows "payload_statistics data =
           \<lparr>num_tables = length (tables doc),
            num_pictures = length (pictures doc),
            num_figures = length (filter (sublist ''Figure'') (texts doc)),
            estimated_word_count = count_words False (export_to_markdown_strict doc)\<rparr>"
    and "payload_extraction_summary data = generate_extraction_summary doc"
  using assms
  by (auto simp: extract_comprehensive_data_def ebind_eq_Inr split: option.splits)

lemma extract_comprehensive_data_total:
  assumes "st_size ev (path_str pdf_file) = Some n"
    and "\<forall>k\<in>set [''enable_ocr'', ''enable_tables'', ''generate_picture_images'',
                 ''enable_picture_classification'']. map_of (processing_config p) k \<noteq> None"
  shows "\<exists>data. extract_comprehensive_data ev p doc pdf_file = Inr data"
proof -
  from assms(2) obtain ocr where ocr: "getitem (processing_config p) ''enable_ocr'' = Inr ocr"
    by (auto simp: getitem_def)
  from assms(2) obtain tab where tab: "getitem (processing_config p) ''enable_tables'' = Inr tab"
    by (auto simp: getitem_def)
  from assms(2) obtain img
    where img: "getitem (processing_config p) ''generate_picture_images'' = Inr img"
    by (auto simp: getitem_def)
  from assms(2) obtain cls
    where cls: "getitem (processing_config p) ''enable_picture_classification'' = Inr cls"
    by (auto simp: getitem_def)
  show ?thesis
    by (simp add: extract_comprehensive_data_def assms(1) ocr tab img cls)
qed

lemma payload_table_entries:
  assumes "extract_comprehensive_data ev p doc pdf_file = Inr data"
  shows "num_tables (payload_statistics data) = length (tables doc) \<and>
         length (summary_tables (payload_extraction_summary data)) = length (tables doc) \<and>
         (\<forall>j < length (tables doc).
            table_id (summary_tables (payload_extraction_summary data) ! j) = j + 1 \<and>
            (case export_to_dataframe (tables doc ! j) of
               Inr (r, c) \<Rightarrow>
                 rows (summary_tables (payload_extraction_summary data) ! j) = PInt (int r) \<and>
                 columns (summary_tables (payload_extraction_summary data) ! j) = PInt (int c) \<and>
                 has_headers (summary_tables (payload_extraction_summary data) ! j) = PBool True
             | Inl e \<Rightarrow>
                 rows (summary_tables (payload_extraction_summary data) ! j) = PStr ''unknown'' \<and>
                 columns (summary_tables (payload_extraction_summary data) ! j) = PStr ''unknown'' \<and>
                 has_headers (summary_tables (payload_extraction_summary data) ! j)
                   = PStr ''unknown''))"
proof -
  have tabs: "summary_tables (payload_extraction_summary data) = table_summaries 0 (tables doc)"
    using extract_comprehensive_data_Inr(2) [OF assms]
    by (simp add: generate_extraction_summary_def)
  have "num_tables (payload_statistics data) = length (tables doc)"
    using extract_comprehensive_data_Inr(1) [OF assms] by simp
  moreover have "length (summary_tables (payload_extraction_summary data)) = length (tables doc)"
    by (simp add: tabs table_summaries_length)
  moreover have "table_id (table_summaries 0 (tables doc) ! j) = j + 1 \<and>
      (case export_to_dataframe (tables doc ! j) of
         Inr (r, c) \<Rightarrow>
           rows (table_summaries 0 (tables doc) ! j) = PInt (int r) \<and>
           columns (table_summaries 0 (tables doc) ! j) = PInt (int c) \<and>
           has_headers (table_summaries 0 (tables doc) ! j) = PBool True
       | Inl e \<Rightarrow>
           rows (table_summaries 0 (tables doc) ! j) = PStr ''unknown'' \<and>
           columns (table_summaries 0 (tables doc) ! j) = PStr ''unknown'' \<and>
           has_headers (table_summaries 0 (tables doc) ! j) = PStr ''unknown'')"
    if "j < length (tables doc)" for j
    using table_summaries_nth [OF that, of 0]
    by (simp split: sum.splits prod.splits)
  ultimately show ?thesis unfolding tabs by blast
qed

text \<open>
  C7. For a file that exists and a processor whose processing configuration has the four
  keys of the configuration snapshot, the payload of a document with \<open>n\<close> tables is built
  whatever the exports of its tables do: no error of an export leaves the builder. The
  payload counts \<open>n\<close> tables in its statistics and has \<open>n\<close> table entries in its summary;
  the entry at position \<open>j\<close> (from 0) has the id \<open>j + 1\<close> and describes the table at position
  \<open>j\<close>: the exact numbers of rows and columns and \<open>has_headers = True\<close> when the export of
  that table succeeds, and the string \<open>unknown\<close> in all three fields when it raises.
\<close>

theorem extraction_summary_tables:
  assumes "st_size ev (path_str pdf_file) = Some n"
    and "\<forall>k\<in>set [''enable_ocr'', ''enable_tables'', ''generate_picture_images'',
                 ''enable_picture_classification'']. map_of (processing_config p) k \<noteq> None"
  shows "\<exists>data.
           extract_comprehensive_data ev p doc pdf_file = Inr data \<and>
           num_tables (payload_statistics data) = length (tables doc) \<and>
           length (summary_tables (payload_extraction_summary data)) = length (tables doc) \<and>
           (\<forall>j < length (tables doc).
              table_id (summary_tables (payload_extraction_summary data) ! j) = j + 1 \<and>
              (case export_to_dataframe (tables doc ! j) of
                 Inr (r, c) \<Rightarrow>
                   rows (summary_tables (payload_extraction_summary data) ! j) = PInt (int r) \<and>
                   columns (summary_tables (payload_extraction_summary data) ! j) = PInt (int c) \<and>
                   has_headers (summary_tables (payload_extraction_summary data) ! j) = PBool True
               | Inl e \<Rightarrow>
                   rows (summary_tables (payload_extraction_summary data) ! j) = PStr ''unknown'' \<and>
                   columns (summary_tables (payload_extraction_summary data) ! j)
                     = PStr ''unknown'' \<and>
                   has_headers (summary_tables (payload_extraction_summary data) ! j)
                     = PStr ''unknown''))"
proof -
  from extract_comprehensive_data_total [OF assms]
  obtain data where d: "extract_comprehensive_data ev p doc pdf_file = Inr data"
    by blast
  from d payload_table_entries [OF d] show ?thesis
    by blast
qed

theorem extraction_summary_tables_witness:
  "st_size example_env (path_str example_path) = Some 2048 \<and>
   processing_config (example_processor None) = PROCESSING_CONFIG \<and>
   num_tables (payload_statistics
     (projr (extract_comprehensive_data example_env (example_processor None)
      (example_document\<lparr>tables := [Table (Inl EngineError), Table (Inr (4, 3)), Table (Inr (2, 5))]\<rparr>)
      example_path))) = 3 \<and>
   length (summary_tables (payload_extraction_summary
     (projr (extract_comprehensive_data example_env (example_processor None)
      (example_document\<lparr>tables := [Table (Inl EngineError), Table (Inr (4, 3)), Table (Inr (2, 5))]\<rparr>)
      example_path)))) = 3 \<and>
   table_id (summary_tables (payload_extraction_summary
     (projr (extract_comprehensive_data example_env (example_processor None)
      (example_document\<lparr>tables := [Table (Inl EngineError), Table (Inr (4, 3)), Table (Inr (2, 5))]\<rparr>)
      example_path))) ! 0) = 1 \<and>
   rows (summary_tables (payload_extraction_summary
     (projr (extract_comprehensive_data example_env (example_processor None)
      (example_document\<lparr>tables := [Table (Inl EngineError), Table (Inr (4, 3)), Table (Inr (2, 5))]\<rparr>)
      example_path))) ! 0) = PStr ''unknown'' \<and>
   columns (summary_tables (payload_extraction_summary
     (projr (extract_comprehensive_data example_env (example_processor None)
      (example_document\<lparr>tables := [Table (Inl EngineError), Table (Inr (4, 3)), Table (Inr (2, 5))]\<rparr>)
      example_path))) ! 0) = PStr ''unknown'' \<and>
   has_headers (summary_tables (payload_extraction_summary
     (projr (extract_comprehensive_data example_env (example_processor None)
      (example_document\<lparr>tables := [Table (Inl EngineError), Table (Inr (4, 3)), Table (Inr (2, 5))]\<rparr>)
      example_path))) ! 0) = PStr ''unknown'' \<and>
   table_id (summary_tables (payload_extraction_summary
     (projr (extract_comprehensive_data example_env (example_processor None)
      (example_document\<lparr>tables := [Table (Inl EngineError), Table (Inr (4, 3)), Table (Inr (2, 5))]\<rparr>)
      example_path))) ! 2) = 3 \<and>
   rows (summary_tables (payload_extraction_summary
     (projr (extract_comprehensive_data example_env (example_processor None)
      (example_document\<lparr>tables := [Table (Inl EngineError), Table (Inr (4, 3)), Table (Inr (2, 5))]\<rparr>)
      example_path))) ! 2) = PInt 2 \<and>
   columns (summary_tables (payload_extraction_summary
     (projr (extract_comprehensive_data example_env (example_processor None)
      (example_document\<lparr>tables := [Table (Inl EngineError), Table (Inr (4, 3)), Table (Inr (2, 5))]\<rparr>)
      example_path))) ! 2) = PInt 5 \<and>
   has_headers (summary_tables (payload_extraction_summary
     (projr (extract_comprehensive_data example_env (example_processor None)
      (example_document\<lparr>tables := [Table (Inl EngineError), Table (Inr (4, 3)), Table (Inr (2, 5))]\<rparr>)
      example_path))) ! 2) = PBool True"
proof -
  let ?doc = "example_document\<lparr>tables := [Table (Inl EngineError), Table (Inr (4, 3)), Table (Inr (2, 5))]\<rparr>"
  have s: "st_size example_env (path_str example_path) = Some 2048"
    by (simp add: example_env_def example_path_def)
  have pc: "processing_config (example_processor None) = PROCESSING_CONFIG"
    by code_simp
  have k: "\<forall>k\<in>set [''enable_ocr'', ''enable_tables'', ''generate_picture_images'',
                 ''enable_picture_classification''].
             map_of (processing_config (example_processor None)) k \<noteq> None"
    by (simp add: pc PROCESSING_CONFIG_def)
  from extraction_summary_tables [OF s k, of ?doc]
  obtain data where d: "extract_comprehensive_data example_env (example_processor None) ?doc
                          example_path = Inr data"
    and a: "num_tables (payload_statistics data) = length (tables ?doc)"
    and b: "length (summary_tables (payload_extraction_summary data)) = length (tables ?doc)"
    and c: "\<forall>j < length (tables ?doc).
              table_id (summary_tables (payload_extraction_summary data) ! j) = j + 1 \<and>
              (case export_to_dataframe (tables ?doc ! j) of
                 Inr (r, c) \<Rightarrow>
                   rows (summary_tables (payload_extraction_summary data) ! j) = PInt (int r) \<and>
                   columns (summary_tables (payload_extraction_summary data) ! j) = PInt (int c) \<and>
                   has_headers (summary_tables (payload_extraction_summary data) ! j) = PBool True
               | Inl e \<Rightarrow>
                   rows (summary_tables (payload_extraction_summary data) ! j) = PStr ''unknown'' \<and>
                   columns (summary_tables (payload_extraction_summary data) ! j)
                     = PStr ''unknown'' \<and>
                   has_headers (summary_tables (payload_extraction_summary data) ! j)
                     = PStr ''unknown'')"
    by blast
  have p: "projr (extract_comprehensive_data example_env (example_processor None) ?doc
             example_path) = data"
    by (simp add: d)
  from c [rule_format, of 0] c [rule_format, of 2] a b s pc show ?thesis
    unfolding p by simp
qed

text \<open>
  C8. The text preview is the first 500 characters of the strict-text export followed by
  the three-character ellipsis, whatever the length of the export; so it never has more
  than 503 characters, and for an empty export it is the ellipsis alone.
\<close>

theorem text_preview_at_most_503:
  "text_preview (generate_extraction_summary doc)
     = take 500 (export_to_markdown_strict doc) @ ''...'' \<and>
   length (text_preview (generate_extraction_summary doc)) \<le> 503 \<and>
   text_preview (generate_extraction_summary (doc\<lparr>export_to_markdown_strict := ''''\<rparr>)) = ''...''"
  by (simp add: generate_extraction_summary_def)

section \<open>Validation and the run of the advanced processor\<close>

lemma validate_input_file_typed:
  assumes "getitem (file_config p) ''supported_extensions'' = Inr (PList exts)"
    and "getitem (file_config p) ''max_file_size_mb'' = Inr (PInt m)"
  shows "validate_input_file ev p f w =
           (case st_size ev (path_str f) of
              None \<Rightarrow> (Inr False, emit (ErrFileNotFound (path_str f)) w)
            | Some n \<Rightarrow>
                if lower (path_suffix f) \<notin> set exts
                then (Inr False, emit (ErrUnsupportedFileType (path_suffix f)) w)
                else if of_int m < file_size_mb n
                then (Inr False, emit (ErrFileTooLarge (file_size_mb n) (PInt m)) w)
                else (Inr True, w))"
  using assms by (simp add: validate_input_file_def split: option.splits)

lemma validate_input_file_world:
  "output_files (snd (validate_input_file ev p f w)) = output_files w \<and>
   engine_calls (snd (validate_input_file ev p f w)) = engine_calls w"
  by (simp add: validate_input_file_def split: option.splits sum.splits bool.splits)

lemma process_pdf_not_validated:
  assumes "fst (validate_input_file ev p f w) \<noteq> Inr True"
  shows "snd (process_pdf ev p f w) = snd (validate_input_file ev p f w)"
    and "fst (process_pdf ev p f w) =
           (case fst (validate_input_file ev p f w) of Inl e \<Rightarrow> Inl e | Inr b \<Rightarrow> Inr None)"
  using assms
  by (auto simp: process_pdf_def split: prod.splits sum.splits bool.splits)

lemma process_body_non_success:
  assumes "engine_convert ev (converter p) f = Inr result"
    and "status_name result \<noteq> ''SUCCESS''"
  shows "process_body ev p f w =
           (Inr None, emit (ErrConversionFailed (status_name result)) (call_engine f w))"
  using assms by (simp add: process_body_def)


lemma sample_file_config: "file_config (example_processor None) = FILE_CONFIG"
  by code_simp

lemma sample_lower_suffix: "lower (path_suffix example_path) = ''.pdf''"
  by code_simp

lemma sample_validated:
  assumes "st_size ev (path_str example_path) = Some n" and "n \<le> 104857600"
  shows "validate_input_file ev (example_processor None) example_path w = (Inr True, w)"
proof -
  have g1: "getitem (file_config (example_processor None)) ''supported_extensions''
              = Inr (PList [''.pdf''])"
    by (simp add: sample_file_config getitem_def FILE_CONFIG_def)
  have g2: "getitem (file_config (example_processor None)) ''max_file_size_mb'' = Inr (PInt 100)"
    by (simp add: sample_file_config getitem_def FILE_CONFIG_def)
  have "n < 2 ^ 53" using assms(2) by simp
  then have "file_size_mb n = of_nat n / 1048576"
    by (simp add: file_size_mb_def nearest_double_exact)
  moreover have "(of_nat n :: rat) \<le> of_nat 104857600"
    using assms(2) by (simp only: of_nat_le_iff)
  ultimately have "\<not> of_int 100 < file_size_mb n"
    by simp
  then show ?thesis
    using assms(1) by (simp add: validate_input_file_typed [OF g1 g2] sample_lower_suffix)
qed

text \<open>
  C4. When the engine's answer for the file has a status other than \<open>SUCCESS\<close>, the run
  leaves the output files as they were and does not return a payload; when the validation
  has let the file through, the engine is called once and \<^verbatim>\<open>process_pdf\<close> returns
  \<^verbatim>\<open>None\<close>.
\<close>

theorem non_success_writes_nothing:
  assumes "engine_convert ev (converter p) f = Inr result"
    and "status_name result \<noteq> ''SUCCESS''"
  shows "output_files (snd (process_pdf ev p f w)) = output_files w \<and>
         (\<forall>data. fst (process_pdf ev p f w) \<noteq> Inr (Some data)) \<and>
         (fst (validate_input_file ev p f w) = Inr True \<longrightarrow>
            fst (process_pdf ev p f w) = Inr None \<and>
            engine_calls (snd (process_pdf ev p f w)) = engine_calls w @ [f])"
proof (cases "fst (validate_input_file ev p f w) = Inr True")
  case True
  obtain w' where v: "validate_input_file ev p f w = (Inr True, w')"
    using True by (cases "validate_input_file ev p f w") simp
  have w': "output_files w' = output_files w" "engine_calls w' = engine_calls w"
    using validate_input_file_world [of ev p f w] v by simp_all
  have "process_pdf ev p f w =
          (Inr None, emit (ErrConversionFailed (status_name result))
                       (call_engine f (emit (InfoStarting (path_name f)) w')))"
    by (simp add: process_pdf_def v process_body_non_success [OF assms])
  then show ?thesis using w' by simp
next
  case False
  from process_pdf_not_validated [OF False] validate_input_file_world [of ev p f w] False
  show ?thesis by (auto split: sum.splits)
qed

theorem non_success_writes_nothing_witness:
  "engine_convert (example_env\<lparr>engine_convert :=
       (\<lambda>po f. Inr \<lparr>status_name = ''FAILURE'', result_document = example_document\<rparr>)\<rparr>)
     (converter (example_processor None)) example_path
     = Inr \<lparr>status_name = ''FAILURE'', result_document = example_document\<rparr> \<and>
   status_name \<lparr>status_name = ''FAILURE'', result_document = example_document\<rparr> \<noteq> ''SUCCESS'' \<and>
   fst (validate_input_file (example_env\<lparr>engine_convert :=
       (\<lambda>po f. Inr \<lparr>status_name = ''FAILURE'', result_document = example_document\<rparr>)\<rparr>)
     (example_processor None) example_path empty_world) = Inr True \<and>
   fst (process_pdf (example_env\<lparr>engine_convert :=
       (\<lambda>po f. Inr \<lparr>status_name = ''FAILURE'', result_document = example_document\<rparr>)\<rparr>)
     (example_processor None) example_path empty_world) = Inr None \<and>
   output_files (snd (process_pdf (example_env\<lparr>engine_convert :=
       (\<lambda>po f. Inr \<lparr>status_name = ''FAILURE'', result_document = example_document\<rparr>)\<rparr>)
     (example_processor None) example_path empty_world)) = [] \<and>
   engine_calls (snd (process_pdf (example_env\<lparr>engine_convert :=
       (\<lambda>po f. Inr \<lparr>status_name = ''FAILURE'', result_document = example_document\<rparr>)\<rparr>)
     (example_processor None) example_path empty_world)) = [example_path]"
proof -
  let ?ev = "example_env\<lparr>engine_convert :=
       (\<lambda>po f. Inr \<lparr>status_name = ''FAILURE'', result_document = example_document\<rparr>)\<rparr>"
  let ?r = "\<lparr>status_name = ''FAILURE'', result_document = example_document\<rparr>"
  have h1: "engine_convert ?ev (converter (example_processor None)) example_path = Inr ?r"
    by simp
  have h2: "status_name ?r \<noteq> ''SUCCESS''"
    by simp
  have "st_size ?ev (path_str example_path) = Some 2048"
    by (simp add: example_env_def example_path_def)
  then have h3: "fst (validate_input_file ?ev (example_processor None) example_path empty_world)
              = Inr True"
    by (simp add: sample_validated)
  have e: "output_files empty_world = []" "engine_calls empty_world = []"
    by (simp_all add: empty_world_def)
  from non_success_writes_nothing [OF h1 h2, of empty_world] h1 h2 h3 e
  show ?thesis by simp
qed

lemma case_insensitive_member_lower:
  assumes "\<forall>e\<in>set exts. lower e = e"
  shows "case_insensitive_member x exts \<longleftrightarrow> lower x \<in> set exts"
proof -
  have "map lower exts = exts"
    using assms by (induction exts) simp_all
  then show ?thesis by (simp add: case_insensitive_member_def)
qed

text \<open>
  For a configuration whose \<open>supported_extensions\<close> is a list and whose \<open>max_file_size_mb\<close>
  is an integer, the validation checks, in this order and stopping at the first failure:
  that the path exists; that the lower-cased suffix is an element of
  \<open>supported_extensions\<close>; that the size in MB does not exceed the ceiling. Each failure
  returns \<open>False\<close> with its own log entry. When the configured extensions are in lower
  case, the second check is membership that ignores case. Whenever the validation does not
  return \<open>True\<close>, \<^verbatim>\<open>process_pdf\<close> does not call the engine, and returns \<^verbatim>\<open>None\<close> when the
  validation returned \<open>False\<close>.
\<close>

lemma validation_checks_in_order:
  assumes "getitem (file_config p) ''supported_extensions'' = Inr (PList exts)"
    and "getitem (file_config p) ''max_file_size_mb'' = Inr (PInt m)"
  shows "validate_input_file ev p f w =
           (case st_size ev (path_str f) of
              None \<Rightarrow> (Inr False, emit (ErrFileNotFound (path_str f)) w)
            | Some n \<Rightarrow>
                if lower (path_suffix f) \<notin> set exts
                then (Inr False, emit (ErrUnsupportedFileType (path_suffix f)) w)
                else if of_int m < file_size_mb n
                then (Inr False, emit (ErrFileTooLarge (file_size_mb n) (PInt m)) w)
                else (Inr True, w)) \<and>
         ((\<forall>e\<in>set exts. lower e = e) \<longrightarrow>
            (lower (path_suffix f) \<in> set exts \<longleftrightarrow> case_insensitive_member (path_suffix f) exts)) \<and>
         (fst (validate_input_file ev p f w) \<noteq> Inr True \<longrightarrow>
            engine_calls (snd (process_pdf ev p f w)) = engine_calls w) \<and>
         (fst (validate_input_file ev p f w) = Inr False \<longrightarrow>
            fst (process_pdf ev p f w) = Inr None)"
proof -
  have "fst (validate_input_file ev p f w) \<noteq> Inr True \<longrightarrow>
          engine_calls (snd (process_pdf ev p f w)) = engine_calls w"
    using process_pdf_not_validated(1) [of ev p f w] validate_input_file_world [of ev p f w]
    by simp
  moreover have "fst (validate_input_file ev p f w) = Inr False \<longrightarrow>
          fst (process_pdf ev p f w) = Inr None"
    using process_pdf_not_validated(2) [of ev p f w] by simp
  ultimately show ?thesis
    using validate_input_file_typed [OF assms, of ev f w] case_insensitive_member_lower [of exts]
    by blast
qed

lemma validation_checks_in_order_example:
  "getitem (file_config (example_processor None)) ''supported_extensions'' = Inr (PList [''.pdf'']) \<and>
   getitem (file_config (example_processor None)) ''max_file_size_mb'' = Inr (PInt 100) \<and>
   lower ''.pdf'' = ''.pdf'' \<and>
   case_insensitive_member (path_suffix example_path) [''.pdf''] \<and>
   validate_input_file example_env (example_processor None)
     (example_path\<lparr>path_str := ''missing.pdf''\<rparr>) empty_world
     = (Inr False, emit (ErrFileNotFound ''missing.pdf'') empty_world) \<and>
   fst (process_pdf example_env (example_processor None)
          (example_path\<lparr>path_str := ''missing.pdf''\<rparr>) empty_world) = Inr None \<and>
   engine_calls (snd (process_pdf example_env (example_processor None)
          (example_path\<lparr>path_str := ''missing.pdf''\<rparr>) empty_world)) = []"
proof -
  let ?f = "example_path\<lparr>path_str := ''missing.pdf''\<rparr>"
  have g1: "getitem (file_config (example_processor None)) ''supported_extensions''
              = Inr (PList [''.pdf''])"
    by (simp add: sample_file_config getitem_def FILE_CONFIG_def)
  have g2: "getitem (file_config (example_processor None)) ''max_file_size_mb'' = Inr (PInt 100)"
    by (simp add: sample_file_config getitem_def FILE_CONFIG_def)
  have l: "lower ''.pdf'' = ''.pdf''"
    by code_simp
  have s: "st_size example_env (path_str ?f) = None"
    by (simp add: example_env_def)
  have x: "lower (path_suffix example_path) = ''.pdf''"
    by (rule sample_lower_suffix)
  note t = validation_checks_in_order [OF g1 g2, of example_env ?f empty_world]
  note u = validation_checks_in_order [OF g1 g2, of example_env example_path empty_world]
  from t have v: "validate_input_file example_env (example_processor None) ?f empty_world
      = (Inr False, emit (ErrFileNotFound ''missing.pdf'') empty_world)"
    using s by simp
  from u l x have c: "case_insensitive_member (path_suffix example_path) [''.pdf'']"
    by simp
  from t v have "fst (process_pdf example_env (example_processor None) ?f empty_world) = Inr None"
    and "engine_calls (snd (process_pdf example_env (example_processor None) ?f empty_world))
           = engine_calls empty_world"
    by simp_all
  then show ?thesis using g1 g2 l c v by (simp add: empty_world_def)
qed

text \<open>
  C5. The extension test lower-cases the suffix of the file and leaves the configured
  extensions as they are. With \<open>supported_extensions\<close> overridden to \<open>['.PDF']\<close>, the existing
  file \<open>docs/report.PDF\<close>, whose suffix is in the list as it is written and all the more so
  when case is ignored, fails the second check: the validation logs an unsupported file
  type and returns \<open>False\<close>, and \<^verbatim>\<open>process_pdf\<close> returns \<^verbatim>\<open>None\<close> without calling the engine.
  Under the default list \<open>['.pdf']\<close> the same file passes.
\<close>

theorem uppercase_extension_rejected:
  "getitem (file_config (example_processor (Some [(''file'', [(''supported_extensions'', PList [''.PDF''])])]))) ''supported_extensions'' = Inr (PList [''.PDF'']) \<and>
   st_size example_env (path_str example_path) = Some 2048 \<and>
   path_suffix example_path \<in> set [''.PDF''] \<and>
   case_insensitive_member (path_suffix example_path) [''.PDF''] \<and>
   validate_input_file example_env (example_processor (Some [(''file'', [(''supported_extensions'', PList [''.PDF''])])])) example_path empty_world
     = (Inr False, emit (ErrUnsupportedFileType ''.PDF'') empty_world) \<and>
   fst (process_pdf example_env (example_processor (Some [(''file'', [(''supported_extensions'', PList [''.PDF''])])])) example_path empty_world) = Inr None \<and>
   engine_calls (snd (process_pdf example_env (example_processor (Some [(''file'', [(''supported_extensions'', PList [''.PDF''])])])) example_path empty_world)) = [] \<and>
   validate_input_file example_env (example_processor None) example_path empty_world
     = (Inr True, empty_world)"
proof -
  let ?p = "(example_processor (Some [(''file'', [(''supported_extensions'', PList [''.PDF''])])]))"
  have fc: "file_config ?p =
      [(''supported_extensions'', PList [''.PDF'']), (''max_file_size_mb'', PInt 100),
       (''create_backup'', PBool False)]"
    by code_simp
  have g1: "getitem (file_config ?p) ''supported_extensions'' = Inr (PList [''.PDF''])"
    by (simp add: fc getitem_def)
  have g2: "getitem (file_config ?p) ''max_file_size_mb'' = Inr (PInt 100)"
    by (simp add: fc getitem_def)
  have c: "case_insensitive_member (path_suffix example_path) [''.PDF'']"
    by code_simp
  have m: "path_suffix example_path \<in> set [''.PDF'']"
    by (simp add: example_path_def)
  have s: "st_size example_env (path_str example_path) = Some 2048"
    by (simp add: example_env_def example_path_def)
  have v: "validate_input_file example_env ?p example_path empty_world
     = (Inr False, emit (ErrUnsupportedFileType ''.PDF'') empty_world)"
    by (simp add: validate_input_file_typed [OF g1 g2] s sample_lower_suffix)
       (simp add: example_path_def)
  then have n: "fst (validate_input_file example_env ?p example_path empty_world) \<noteq> Inr True"
    by simp
  have r: "fst (process_pdf example_env ?p example_path empty_world) = Inr None"
    using process_pdf_not_validated(2) [OF n] v by simp
  have e: "engine_calls (snd (process_pdf example_env ?p example_path empty_world)) = []"
    using process_pdf_not_validated(1) [OF n] v by (simp add: empty_world_def)
  have d: "validate_input_file example_env (example_processor None) example_path empty_world
     = (Inr True, empty_world)"
    by (rule sample_validated [OF s]) simp
  from g1 s m c v r e d show ?thesis by blast
qed

lemma file_size_mb_exact: "n < 2 ^ 53 \<Longrightarrow> file_size_mb n = of_nat n / 1048576"
  by (simp add: file_size_mb_def nearest_double_exact)

text \<open>
  C6 (amended). For a ceiling \<open>max_file_size_mb\<close> that is an integer from 0 to \<open>2 ^ 33 - 1\<close>,
  and a file whose lower-cased suffix is among the supported extensions: a size of exactly
  \<open>max_file_size_mb * 1024 * 1024\<close> bytes passes the validation, and one byte more fails it
  with the entry for a file that is too large.
\<close>

theorem size_ceiling_boundary:
  assumes "getitem (file_config p) ''supported_extensions'' = Inr (PList exts)"
    and "getitem (file_config p) ''max_file_size_mb'' = Inr (PInt m)"
    and "lower (path_suffix f) \<in> set exts"
    and "0 \<le> m" and "m < 2 ^ 33"
  shows "(st_size ev (path_str f) = Some (nat m * 1024 * 1024) \<longrightarrow>
            validate_input_file ev p f w = (Inr True, w)) \<and>
         (st_size ev (path_str f) = Some (nat m * 1024 * 1024 + 1) \<longrightarrow>
            validate_input_file ev p f w =
              (Inr False,
               emit (ErrFileTooLarge (file_size_mb (nat m * 1024 * 1024 + 1)) (PInt m)) w))"
proof -
  define k where "k = nat m * 1048576"
  have k: "nat m * 1024 * 1024 = k" by (simp add: k_def)
  have m: "nat m < 2 ^ 33" using assms(4,5) by (simp add: nat_less_iff)
  then have "k + 1048576 \<le> 2 ^ 33 * 1048576" by (simp add: k_def)
  then have b: "Suc k < 2 ^ 53" by simp
  then have b0: "k < 2 ^ 53" by simp
  have om: "(of_nat k :: rat) = of_int m * 1048576" using assms(4) by (simp add: k_def)
  have e0: "file_size_mb k = of_int m"
    unfolding file_size_mb_exact [OF b0] om by simp
  have "file_size_mb (Suc k) = (of_nat k + 1) / 1048576"
    unfolding file_size_mb_exact [OF b] by simp
  also have "\<dots> = of_int m + 1 / 1048576"
    unfolding om by (simp add: add_divide_distrib)
  finally have e1: "file_size_mb (Suc k) = of_int m + 1 / 1048576" .
  have "\<not> (of_int m :: rat) < file_size_mb k"
    unfolding e0 by simp
  moreover have "(of_int m :: rat) < file_size_mb (Suc k)"
    unfolding e1 by simp
  ultimately show ?thesis
    using assms(3) unfolding k by (simp add: validate_input_file_typed [OF assms(1,2)])
qed

theorem size_ceiling_boundary_witness:
  "getitem (file_config (example_processor None)) ''supported_extensions'' = Inr (PList [''.pdf'']) \<and>
   getitem (file_config (example_processor None)) ''max_file_size_mb'' = Inr (PInt 100) \<and>
   lower (path_suffix example_path) \<in> set [''.pdf''] \<and> (0::int) \<le> 100 \<and> (100::int) < 2 ^ 33 \<and>
   st_size (example_env\<lparr>st_size := (\<lambda>f. Some 104857600)\<rparr>) (path_str example_path)
     = Some (nat 100 * 1024 * 1024) \<and>
   validate_input_file (example_env\<lparr>st_size := (\<lambda>f. Some 104857600)\<rparr>) (example_processor None)
     example_path empty_world = (Inr True, empty_world) \<and>
   st_size (example_env\<lparr>st_size := (\<lambda>f. Some 104857601)\<rparr>) (path_str example_path)
     = Some (nat 100 * 1024 * 1024 + 1) \<and>
   fst (validate_input_file (example_env\<lparr>st_size := (\<lambda>f. Some 104857601)\<rparr>)
          (example_processor None) example_path empty_world) = Inr False"
proof -
  have g1: "getitem (file_config (example_processor None)) ''supported_extensions''
              = Inr (PList [''.pdf''])"
    by (simp add: sample_file_config getitem_def FILE_CONFIG_def)
  have g2: "getitem (file_config (example_processor None)) ''max_file_size_mb'' = Inr (PInt 100)"
    by (simp add: sample_file_config getitem_def FILE_CONFIG_def)
  have g3: "lower (path_suffix example_path) \<in> set [''.pdf'']"
    by (simp add: sample_lower_suffix)
  have g4: "(0::int) \<le> 100" and g5: "(100::int) < 2 ^ 33"
    by simp_all
  have s0: "st_size (example_env\<lparr>st_size := (\<lambda>f. Some 104857600)\<rparr>) (path_str example_path)
     = Some (nat 100 * 1024 * 1024)"
    by simp
  have s1: "st_size (example_env\<lparr>st_size := (\<lambda>f. Some 104857601)\<rparr>) (path_str example_path)
     = Some (nat 100 * 1024 * 1024 + 1)"
    by simp
  from size_ceiling_boundary [OF g1 g2 g3 g4 g5,
         of "example_env\<lparr>st_size := (\<lambda>f. Some 104857600)\<rparr>" empty_world] s0
  have a: "validate_input_file (example_env\<lparr>st_size := (\<lambda>f. Some 104857600)\<rparr>)
             (example_processor None) example_path empty_world = (Inr True, empty_world)"
    by blast
  from size_ceiling_boundary [OF g1 g2 g3 g4 g5,
         of "example_env\<lparr>st_size := (\<lambda>f. Some 104857601)\<rparr>" empty_world] s1
  have b: "fst (validate_input_file (example_env\<lparr>st_size := (\<lambda>f. Some 104857601)\<rparr>)
             (example_processor None) example_path empty_world) = Inr False"
    by simp
  from g1 g2 g3 g4 g5 s0 s1 a b show ?thesis by blast
qed

theorem size_ceiling_rounding_counterexample:
  "getitem (file_config (example_processor
      (Some [(''file'', [(''max_file_size_mb'', PInt 8589934592)])]))) ''max_file_size_mb''
     = Inr (PInt 8589934592) \<and>
   st_size (example_env\<lparr>st_size := (\<lambda>f. Some 9007199254740993)\<rparr>) (path_str example_path)
     = Some (nat 8589934592 * 1024 * 1024 + 1) \<and>
   validate_input_file (example_env\<lparr>st_size := (\<lambda>f. Some 9007199254740993)\<rparr>)
     (example_processor (Some [(''file'', [(''max_file_size_mb'', PInt 8589934592)])]))
     example_path empty_world = (Inr True, empty_world)"
proof -
  let ?p = "example_processor (Some [(''file'', [(''max_file_size_mb'', PInt 8589934592)])])"
  have fc: "file_config ?p =
      [(''supported_extensions'', PList [''.pdf'']), (''max_file_size_mb'', PInt 8589934592),
       (''create_backup'', PBool False)]"
    by code_simp
  have g1: "getitem (file_config ?p) ''supported_extensions'' = Inr (PList [''.pdf''])"
    by (simp add: fc getitem_def)
  have g2: "getitem (file_config ?p) ''max_file_size_mb'' = Inr (PInt 8589934592)"
    by (simp add: fc getitem_def)
  have s: "st_size (example_env\<lparr>st_size := (\<lambda>f. Some 9007199254740993)\<rparr>) (path_str example_path)
     = Some (nat 8589934592 * 1024 * 1024 + 1)"
    by simp
  have "file_size_mb 9007199254740993 = 8589934592"
    by (simp add: file_size_mb_def nearest_double_tie)
  then have "validate_input_file (example_env\<lparr>st_size := (\<lambda>f. Some 9007199254740993)\<rparr>) ?p
     example_path empty_world = (Inr True, empty_world)"
    by (simp add: validate_input_file_typed [OF g1 g2] sample_lower_suffix)
  with g2 s show ?thesis by blast
qed

section \<open>The minimal processor\<close>

lemma minimal_save_outputs_engine_calls_eq:
  "minimal_save_outputs ev p doc f data w = (r, w') \<Longrightarrow> engine_calls w' = engine_calls w"
  using minimal_save_outputs_engine_calls [of ev p doc f data w] by simp

lemma minimal_process_body_engine_calls:
  "engine_calls (snd (minimal_process_body ev p f w)) = engine_calls w @ [f]"
  by (auto simp: minimal_process_body_def Let_def split: sum.splits prod.splits
           dest: minimal_save_outputs_engine_calls_eq)

lemma try_write_st_size: "try_write (ev\<lparr>st_size := sz\<rparr>) = try_write ev"
  by (simp add: try_write_def fun_eq_iff)

lemma minimal_save_outputs_st_size:
  "minimal_save_outputs (ev\<lparr>st_size := sz\<rparr>) = minimal_save_outputs ev"
  unfolding minimal_save_outputs_def try_write_st_size ..

lemma minimal_process_body_st_size:
  "minimal_process_body (ev\<lparr>st_size := sz\<rparr>) p f w = minimal_process_body ev p f w"
  unfolding minimal_process_body_def minimal_save_outputs_st_size by simp

text \<open>
  C10. The minimal processor, given a path that exists and whose lower-cased suffix is
  \<open>.pdf\<close>, calls the engine with that path whatever the size of the file: the run is the
  same for every other size the file could have. It holds no file-handling configuration
  at all.
\<close>

theorem minimal_process_pdf_no_size_check:
  assumes "st_size ev (path_str f) = Some n" and "lower (path_suffix f) = ''.pdf''"
  shows "engine_calls (snd (minimal_process_pdf ev p f w)) = engine_calls w @ [f] \<and>
         (\<forall>n'. minimal_process_pdf (ev\<lparr>st_size := (st_size ev)(path_str f := Some n')\<rparr>) p f w
                 = minimal_process_pdf ev p f w)"
proof -
  have "engine_calls (snd (minimal_process_pdf ev p f w)) = engine_calls w @ [f]"
    using assms minimal_process_body_engine_calls
            [of ev p f "emit (InfoStarting (path_name f)) w"]
    by (auto simp: minimal_process_pdf_def split: prod.splits sum.splits)
  moreover have "minimal_process_pdf (ev\<lparr>st_size := (st_size ev)(path_str f := Some n')\<rparr>) p f w
                 = minimal_process_pdf ev p f w" for n'
    using assms by (simp add: minimal_process_pdf_def minimal_process_body_st_size)
  ultimately show ?thesis by blast
qed

theorem minimal_process_pdf_no_size_check_witness:
  "st_size (example_env\<lparr>st_size := (\<lambda>f. Some 209715200)\<rparr>) (path_str example_path)
     = Some 209715200 \<and>
   lower (path_suffix example_path) = ''.pdf'' \<and>
   engine_calls (snd (minimal_process_pdf (example_env\<lparr>st_size := (\<lambda>f. Some 209715200)\<rparr>)
      (projr (fst (minimal_init example_env True True empty_world))) example_path empty_world))
     = [example_path]"
proof -
  have h1: "st_size (example_env\<lparr>st_size := (\<lambda>f. Some 209715200)\<rparr>) (path_str example_path)
     = Some 209715200"
    by simp
  from minimal_process_pdf_no_size_check [OF h1 sample_lower_suffix, of _ empty_world]
       h1 sample_lower_suffix
  show ?thesis by (simp add: empty_world_def)
qed

section \<open>Construction: the pipeline and the merge\<close>

lemma getitem_Inr_iff: "getitem d k = Inr v \<longleftrightarrow> map_of d k = Some v"
  by (simp add: getitem_def split: option.splits)

lemma device_lookup:
  assumes "\<forall>l. dv \<noteq> PList l"
  shows "get_by_value device_map dv AUTO =
           Inr (if dv = PStr ''cpu'' then CPU else if dv = PStr ''cuda'' then CUDA else AUTO)"
  using assms by (cases dv) (simp_all add: get_by_value_def device_map_def dict_get_def)

text \<open>
  C9. For every processing configuration that has the keys of \<^verbatim>\<open>PROCESSING_CONFIG\<close>, a
  device that is not a list and, where the accelerator module imports, a number of threads
  that the engine's constructor accepts, \<^verbatim>\<open>_setup_converter\<close> returns pipeline options in which the
  cell matching is the configured one when table extraction is enabled and the engine's
  default otherwise, the image scale is the configured one when page images are generated
  and the engine's default otherwise, and, when the accelerator module imports, the device
  is \<open>CPU\<close> for \<open>cpu\<close>, \<open>CUDA\<close> for \<open>cuda\<close> and \<open>AUTO\<close> for \<open>auto\<close> and for every other value.
\<close>

theorem setup_converter_conditionals:
  assumes "\<forall>k\<in>set (map fst PROCESSING_CONFIG). map_of pc k \<noteq> None"
    and "\<forall>l. map_of pc ''device'' \<noteq> Some (PList l)"
    and "accelerator_available ev \<longrightarrow>
           (\<exists>nt n. map_of pc ''num_threads'' = Some nt \<and> validate_num_threads ev nt = Inr n)"
  shows "\<exists>po w' tab gpage dv.
           setup_converter ev pc w = (Inr po, w') \<and>
           map_of pc ''enable_tables'' = Some tab \<and>
           map_of pc ''generate_page_images'' = Some gpage \<and>
           map_of pc ''device'' = Some dv \<and>
           do_table_structure po = tab \<and>
           generate_page_images po = gpage \<and>
           (if truthy tab then map_of pc ''table_cell_matching'' = Some (do_cell_matching po)
            else do_cell_matching po = do_cell_matching (default_pipeline ev)) \<and>
           (if truthy gpage then map_of pc ''image_resolution_scale'' = Some (images_scale po)
            else images_scale po = images_scale (default_pipeline ev)) \<and>
           (if accelerator_available ev
            then device (accelerator po) =
                   (if dv = PStr ''cpu'' then CPU else if dv = PStr ''cuda'' then CUDA else AUTO)
            else accelerator po = accelerator (default_pipeline ev))"
proof -
  from assms(1) obtain ocr where ocr: "getitem pc ''enable_ocr'' = Inr ocr"
    by (auto simp: PROCESSING_CONFIG_def getitem_def)
  from assms(1) obtain tab where tab: "getitem pc ''enable_tables'' = Inr tab"
    by (auto simp: PROCESSING_CONFIG_def getitem_def)
  from assms(1) obtain cm where cm: "getitem pc ''table_cell_matching'' = Inr cm"
    by (auto simp: PROCESSING_CONFIG_def getitem_def)
  from assms(1) obtain gpage where gpage: "getitem pc ''generate_page_images'' = Inr gpage"
    by (auto simp: PROCESSING_CONFIG_def getitem_def)
  from assms(1) obtain gpic where gpic: "getitem pc ''generate_picture_images'' = Inr gpic"
    by (auto simp: PROCESSING_CONFIG_def getitem_def)
  from assms(1) obtain cls where cls: "getitem pc ''enable_picture_classification'' = Inr cls"
    by (auto simp: PROCESSING_CONFIG_def getitem_def)
  from assms(1) obtain sc where sc: "getitem pc ''image_resolution_scale'' = Inr sc"
    by (auto simp: PROCESSING_CONFIG_def getitem_def)
  from assms(1) obtain code where code: "getitem pc ''enable_code_enrichment'' = Inr code"
    by (auto simp: PROCESSING_CONFIG_def getitem_def)
  from assms(1) obtain formula where formula: "getitem pc ''enable_formula_enrichment'' = Inr formula"
    by (auto simp: PROCESSING_CONFIG_def getitem_def)
  from assms(1) obtain nt where nt: "getitem pc ''num_threads'' = Inr nt"
    by (auto simp: PROCESSING_CONFIG_def getitem_def)
  from assms(1) obtain dv where dv: "getitem pc ''device'' = Inr dv"
    by (auto simp: PROCESSING_CONFIG_def getitem_def)
  have "\<forall>l. dv \<noteq> PList l"
    using assms(2) dv by (simp add: getitem_Inr_iff)
  note dev = device_lookup [OF this]
  have "\<exists>po1. configure_pipeline pc (default_pipeline ev) = Inr po1 \<and>
      do_table_structure po1 = tab \<and> generate_page_images po1 = gpage \<and>
      do_cell_matching po1 = (if truthy tab then cm else do_cell_matching (default_pipeline ev)) \<and>
      images_scale po1 = (if truthy gpage then sc else images_scale (default_pipeline ev)) \<and>
      accelerator po1 = accelerator (default_pipeline ev)"
    by (cases "truthy tab"; cases "truthy gpage";
        simp add: configure_pipeline_def ocr tab cm gpage gpic cls sc code formula)
  then obtain po1 where po1: "configure_pipeline pc (default_pipeline ev) = Inr po1"
    and po1_tab: "do_table_structure po1 = tab"
    and po1_gpage: "generate_page_images po1 = gpage"
    and po1_cm: "do_cell_matching po1
                  = (if truthy tab then cm else do_cell_matching (default_pipeline ev))"
    and po1_sc: "images_scale po1
                  = (if truthy gpage then sc else images_scale (default_pipeline ev))"
    and po1_acc: "accelerator po1 = accelerator (default_pipeline ev)"
    by blast
  have "\<exists>n. accelerator_available ev \<longrightarrow> validate_num_threads ev nt = Inr n"
    using assms(3) nt by (auto simp: getitem_Inr_iff)
  then obtain n where n: "accelerator_available ev \<longrightarrow> validate_num_threads ev nt = Inr n"
    by blast
  have "\<exists>po w'. setup_converter ev pc w = (Inr po, w') \<and>
      po = (if accelerator_available ev
            then po1\<lparr>accelerator :=
                   \<lparr>num_threads = n,
                    device = (if dv = PStr ''cpu'' then CPU
                              else if dv = PStr ''cuda'' then CUDA else AUTO)\<rparr>\<rparr>
            else po1)"
    using n
    by (cases "accelerator_available ev";
        simp add: setup_converter_def po1 configure_accelerator_def dv nt dev)
  then obtain po w' where po: "setup_converter ev pc w = (Inr po, w')"
    and po_eq: "po = (if accelerator_available ev
                      then po1\<lparr>accelerator :=
                             \<lparr>num_threads = n,
                              device = (if dv = PStr ''cpu'' then CPU
                                        else if dv = PStr ''cuda'' then CUDA else AUTO)\<rparr>\<rparr>
                      else po1)"
    by blast
  show ?thesis
    using po po_eq po1_tab po1_gpage po1_cm po1_sc po1_acc tab gpage cm sc dv
    by (auto simp: getitem_Inr_iff)
qed


theorem setup_converter_conditionals_witness:
  "map fst (dict_update PROCESSING_CONFIG
      [(''enable_tables'', PBool False), (''table_cell_matching'', PBool False),
       (''image_resolution_scale'', PInt 3), (''device'', PStr ''cuda'')])
     = map fst PROCESSING_CONFIG \<and>
   map_of (dict_update PROCESSING_CONFIG
      [(''enable_tables'', PBool False), (''table_cell_matching'', PBool False),
       (''image_resolution_scale'', PInt 3), (''device'', PStr ''cuda'')]) ''device''
     = Some (PStr ''cuda'') \<and>
   accelerator_available example_env \<and>
   map_of (dict_update PROCESSING_CONFIG
      [(''enable_tables'', PBool False), (''table_cell_matching'', PBool False),
       (''image_resolution_scale'', PInt 3), (''device'', PStr ''cuda'')]) ''num_threads''
     = Some (PInt 4) \<and>
   validate_num_threads example_env (PInt 4) = Inr 4 \<and>
   do_cell_matching (projr (fst (setup_converter example_env (dict_update PROCESSING_CONFIG
      [(''enable_tables'', PBool False), (''table_cell_matching'', PBool False),
       (''image_resolution_scale'', PInt 3), (''device'', PStr ''cuda'')]) empty_world)))
     = do_cell_matching (default_pipeline example_env) \<and>
   images_scale (projr (fst (setup_converter example_env (dict_update PROCESSING_CONFIG
      [(''enable_tables'', PBool False), (''table_cell_matching'', PBool False),
       (''image_resolution_scale'', PInt 3), (''device'', PStr ''cuda'')]) empty_world)))
     = PInt 3 \<and>
   device (accelerator (projr (fst (setup_converter example_env (dict_update PROCESSING_CONFIG
      [(''enable_tables'', PBool False), (''table_cell_matching'', PBool False),
       (''image_resolution_scale'', PInt 3), (''device'', PStr ''cuda'')]) empty_world))))
     = CUDA"
proof -
  let ?pc = "dict_update PROCESSING_CONFIG
      [(''enable_tables'', PBool False), (''table_cell_matching'', PBool False),
       (''image_resolution_scale'', PInt 3), (''device'', PStr ''cuda'')]"
  have pc: "?pc =
     [(''enable_ocr'', PBool True),
      (''ocr_languages'', PList [''en'']),
      (''enable_tables'', PBool False),
      (''table_cell_matching'', PBool False),
      (''generate_page_images'', PBool True),
      (''generate_picture_images'', PBool True),
      (''enable_picture_classification'', PBool True),
      (''image_resolution_scale'', PInt 3),
      (''enable_code_enrichment'', PBool False),
      (''enable_formula_enrichment'', PBool False),
      (''num_threads'', PInt 4),
      (''device'', PStr ''cuda'')]"
    by code_simp
  have k: "map fst ?pc = map fst PROCESSING_CONFIG"
    unfolding pc by (simp add: PROCESSING_CONFIG_def)
  have h1: "\<forall>k\<in>set (map fst PROCESSING_CONFIG). map_of ?pc k \<noteq> None"
    unfolding pc by (simp add: PROCESSING_CONFIG_def)
  have d: "map_of ?pc ''device'' = Some (PStr ''cuda'')"
    unfolding pc by simp
  have h2: "\<forall>l. map_of ?pc ''device'' \<noteq> Some (PList l)"
    unfolding d by simp
  have t: "map_of ?pc ''enable_tables'' = Some (PBool False)"
    unfolding pc by simp
  have g: "map_of ?pc ''generate_page_images'' = Some (PBool True)"
    unfolding pc by simp
  have i: "map_of ?pc ''image_resolution_scale'' = Some (PInt 3)"
    unfolding pc by simp
  have a: "accelerator_available example_env"
    by (simp add: example_env_def)
  have nt: "map_of ?pc ''num_threads'' = Some (PInt 4)"
    unfolding pc by simp
  have vt: "validate_num_threads example_env (PInt 4) = Inr 4"
    by (simp add: example_env_def)
  have h3: "accelerator_available example_env \<longrightarrow>
      (\<exists>nt n. map_of ?pc ''num_threads'' = Some nt \<and> validate_num_threads example_env nt = Inr n)"
    using nt vt by blast
  from setup_converter_conditionals [OF h1 h2 h3, of empty_world]
  obtain po w' where "setup_converter example_env ?pc empty_world = (Inr po, w')"
    and "do_cell_matching po = do_cell_matching (default_pipeline example_env)"
    and "images_scale po = PInt 3" and "device (accelerator po) = CUDA"
    unfolding t g i d using a by auto
  then show ?thesis using k d a nt vt by simp
qed

lemma setup_converter_refused_threads:
  assumes "accelerator_available ev"
    and "configure_pipeline pc (default_pipeline ev) = Inr po"
    and "map_of pc ''device'' = Some dv" and "\<forall>l. dv \<noteq> PList l"
    and "map_of pc ''num_threads'' = Some nt"
    and "validate_num_threads ev nt = Inl e"
  shows "setup_converter ev pc w = (Inl e, w)"
  using assms
  by (simp add: setup_converter_def configure_accelerator_def getitem_def
        device_lookup [OF assms(4)])

lemma dict_update_Nil [simp]: "dict_update d [] = d"
  by (simp add: dict_update_def)

lemma merge_config_groups:
  "merge_config config_override =
     (dict_update PROCESSING_CONFIG (override_group config_override ''processing''),
      dict_update OUTPUT_CONFIG (override_group config_override ''output''),
      dict_update FILE_CONFIG (override_group config_override ''file''))"
  by (cases config_override) (simp_all add: merge_config_def override_group_def dict_get_def)

lemma init_Inr:
  assumes "fst (init ev config_override w) = Inr p"
  shows "processing_config p = dict_update PROCESSING_CONFIG (override_group config_override ''processing'')"
    and "output_config p = dict_update OUTPUT_CONFIG (override_group config_override ''output'')"
    and "file_config p = dict_update FILE_CONFIG (override_group config_override ''file'')"
    and "setup_logging ev = Inr (logger p)"
    and "getitem (output_config p) ''output_directory'' = Inr (PStr (output_dir p))"
  using assms
  by (auto simp: init_def merge_config_groups
           split: if_splits sum.splits prod.splits pyval.splits)

lemma map_of_dict_update_distinct:
  assumes "distinct (map fst e)"
  shows "map_of (dict_update d e) k =
           (case map_of e k of Some v \<Rightarrow> Some v | None \<Rightarrow> map_of d k)"
  by (simp add: map_of_dict_update map_of_rev_distinct [OF assms] map_add_def)

text \<open>
  C3 (amended). The construction merges three option groups, processing, output and file,
  each as a shallow merge: a key of the override's group has the override's value, every
  other key has what the defaults have for it. The logging group is not merged: the logger
  is set up from \<^verbatim>\<open>LOGGING_CONFIG\<close> and is the same for every override.
\<close>

theorem merge_config_three_groups:
  assumes "fst (init ev config_override w) = Inr p"
    and "distinct (map fst (override_group config_override ''processing''))"
    and "distinct (map fst (override_group config_override ''output''))"
    and "distinct (map fst (override_group config_override ''file''))"
  shows "(\<forall>k. map_of (processing_config p) k =
            (case map_of (override_group config_override ''processing'') k of
               Some v \<Rightarrow> Some v | None \<Rightarrow> map_of PROCESSING_CONFIG k)) \<and>
         (\<forall>k. map_of (output_config p) k =
            (case map_of (override_group config_override ''output'') k of
               Some v \<Rightarrow> Some v | None \<Rightarrow> map_of OUTPUT_CONFIG k)) \<and>
         (\<forall>k. map_of (file_config p) k =
            (case map_of (override_group config_override ''file'') k of
               Some v \<Rightarrow> Some v | None \<Rightarrow> map_of FILE_CONFIG k)) \<and>
         setup_logging ev = Inr (logger p) \<and>
         (\<forall>other w' p'. fst (init ev other w') = Inr p' \<longrightarrow> logger p' = logger p)"
proof -
  note i = init_Inr [OF assms(1)]
  have "logger p' = logger p" if "fst (init ev other w') = Inr p'" for other w' p'
    using init_Inr(4) [OF that] i(4) by simp
  then show ?thesis
    using i(4)
    by (simp add: i(1,2,3) map_of_dict_update_distinct [OF assms(2)]
          map_of_dict_update_distinct [OF assms(3)] map_of_dict_update_distinct [OF assms(4)])
qed

theorem merge_config_three_groups_witness:
  "fst (init example_env
          (Some [(''processing'', [(''enable_ocr'', PBool False)]),
                 (''file'', [(''max_file_size_mb'', PInt 5)])]) empty_world)
     = Inr (example_processor
          (Some [(''processing'', [(''enable_ocr'', PBool False)]),
                 (''file'', [(''max_file_size_mb'', PInt 5)])])) \<and>
   distinct (map fst (override_group
          (Some [(''processing'', [(''enable_ocr'', PBool False)]),
                 (''file'', [(''max_file_size_mb'', PInt 5)])]) ''processing'')) \<and>
   distinct (map fst (override_group
          (Some [(''processing'', [(''enable_ocr'', PBool False)]),
                 (''file'', [(''max_file_size_mb'', PInt 5)])]) ''output'')) \<and>
   distinct (map fst (override_group
          (Some [(''processing'', [(''enable_ocr'', PBool False)]),
                 (''file'', [(''max_file_size_mb'', PInt 5)])]) ''file'')) \<and>
   fst (init example_env None empty_world) = Inr (example_processor None) \<and>
   map_of (processing_config (example_processor
          (Some [(''processing'', [(''enable_ocr'', PBool False)]),
                 (''file'', [(''max_file_size_mb'', PInt 5)])]))) ''enable_ocr''
     = Some (PBool False) \<and>
   map_of (processing_config (example_processor
          (Some [(''processing'', [(''enable_ocr'', PBool False)]),
                 (''file'', [(''max_file_size_mb'', PInt 5)])]))) ''enable_tables''
     = Some (PBool True) \<and>
   map_of (output_config (example_processor
          (Some [(''processing'', [(''enable_ocr'', PBool False)]),
                 (''file'', [(''max_file_size_mb'', PInt 5)])]))) ''save_json''
     = Some (PBool True) \<and>
   map_of (file_config (example_processor
          (Some [(''processing'', [(''enable_ocr'', PBool False)]),
                 (''file'', [(''max_file_size_mb'', PInt 5)])]))) ''max_file_size_mb''
     = Some (PInt 5) \<and>
   logger (example_processor None) = logger (example_processor
          (Some [(''processing'', [(''enable_ocr'', PBool False)]),
                 (''file'', [(''max_file_size_mb'', PInt 5)])]))"
proof -
  let ?ov = "Some [(''processing'', [(''enable_ocr'', PBool False)]),
                   (''file'', [(''max_file_size_mb'', PInt 5)])]"
  have h: "fst (init example_env ?ov empty_world) = Inr (example_processor ?ov)"
    by code_simp
  have n: "fst (init example_env None empty_world) = Inr (example_processor None)"
    by code_simp
  have g1: "override_group ?ov ''processing'' = [(''enable_ocr'', PBool False)]"
    and g2: "override_group ?ov ''output'' = []"
    and g3: "override_group ?ov ''file'' = [(''max_file_size_mb'', PInt 5)]"
    by (simp_all add: override_group_def dict_get_def)
  have d1: "distinct (map fst (override_group ?ov ''processing''))"
    and d2: "distinct (map fst (override_group ?ov ''output''))"
    and d3: "distinct (map fst (override_group ?ov ''file''))"
    by (simp_all add: g1 g2 g3)
  note t = merge_config_three_groups [OF h d1 d2 d3, unfolded g1 g2 g3]
  from t have a1: "map_of (processing_config (example_processor ?ov)) ''enable_ocr''
      = Some (PBool False)"
    by simp
  from t have a2: "map_of (processing_config (example_processor ?ov)) ''enable_tables''
      = Some (PBool True)"
    by (simp add: PROCESSING_CONFIG_def)
  from t have a3: "map_of (output_config (example_processor ?ov)) ''save_json''
      = Some (PBool True)"
    by (simp add: OUTPUT_CONFIG_def)
  from t have a4: "map_of (file_config (example_processor ?ov)) ''max_file_size_mb''
      = Some (PInt 5)"
    by simp
  from t n have a5: "logger (example_processor None) = logger (example_processor ?ov)"
    by blast
  from h n d1 d2 d3 a1 a2 a3 a4 a5 show ?thesis by blast
qed

theorem logging_override_ignored_counterexample:
  "override_group (Some [(''logging'', [(''level'', PStr ''DEBUG'')])]) ''logging''
     = [(''level'', PStr ''DEBUG'')] \<and>
   level_of (PStr ''DEBUG'') = Inr 10 \<and>
   fst (init example_env (Some [(''logging'', [(''level'', PStr ''DEBUG'')])]) empty_world)
     = Inr (example_processor (Some [(''logging'', [(''level'', PStr ''DEBUG'')])])) \<and>
   log_level (logger (example_processor (Some [(''logging'', [(''level'', PStr ''DEBUG'')])])))
     = 20"
  by code_simp

section \<open>The writer\<close>

lemma sbind_lift_Inr_eta: "sbind (lift (Inr x)) f = f x"
  by (rule ext) simp

lemma write_last:
  "output_files (snd ((if b then try_write ev path c kind else lift (Inr ())) w))
     = output_files w @ takeWhile (\<lambda>(path, c). \<not> write_fails ev path) (if b then [(path, c)] else [])
   \<and> (fst ((if b then try_write ev path c kind else lift (Inr ())) w) = Inr ()
        \<longleftrightarrow> (\<forall>(path, c)\<in>set (if b then [(path, c)] else []). \<not> write_fails ev path))"
  by (simp add: try_write_def)

lemma write_step:
  assumes "\<And>w. output_files (snd (rest w))
                 = output_files w @ takeWhile (\<lambda>(path, c). \<not> write_fails ev path) l
               \<and> (fst (rest w) = Inr () \<longleftrightarrow> (\<forall>(path, c)\<in>set l. \<not> write_fails ev path))"
  shows "output_files (snd (sbind (if b then try_write ev path c kind else lift (Inr ()))
                              (\<lambda>u. rest) w))
     = output_files w
       @ takeWhile (\<lambda>(path, c). \<not> write_fails ev path) ((if b then [(path, c)] else []) @ l)
   \<and> (fst (sbind (if b then try_write ev path c kind else lift (Inr ())) (\<lambda>u. rest) w) = Inr ()
        \<longleftrightarrow> (\<forall>(path, c)\<in>set ((if b then [(path, c)] else []) @ l). \<not> write_fails ev path))"
proof (cases "b \<and> write_fails ev path")
  case True
  then show ?thesis by (simp add: sbind_def try_write_def)
next
  case False
  then show ?thesis using assms [of "if b then emit (InfoSaved kind path) (write_file path c w) else w"]
    by (cases b) (simp_all add: sbind_def try_write_def)
qed


lemma dict_update_keeps_keys: "map_of d k \<noteq> None \<Longrightarrow> map_of (dict_update d e) k \<noteq> None"
  by (simp add: map_of_dict_update map_add_def split: option.splits)

lemma init_output_keys:
  assumes "fst (init ev config_override w) = Inr p"
  shows "\<forall>k\<in>set (map fst OUTPUT_CONFIG). map_of (output_config p) k \<noteq> None"
  unfolding init_Inr(2) [OF assms]
  by (intro ballI dict_update_keeps_keys) (auto simp: OUTPUT_CONFIG_def)

lemma image_mode_lookup:
  assumes "\<forall>l. imv \<noteq> PList l"
  shows "get_by_value image_mode_map imv PLACEHOLDER =
           Inr (case imv of PStr s \<Rightarrow> dict_get image_mode_map s PLACEHOLDER | _ \<Rightarrow> PLACEHOLDER)"
  using assms by (cases imv) (simp_all add: get_by_value_def)

text \<open>
  C2 (amended). The writer takes the enabled formats in the fixed order JSON, Markdown,
  HTML, text, report and stops at the first write that fails: the formats before it are
  written, the failing one and every format after it are not, and the writer ends with the
  exception. It returns normally exactly when no write of an enabled format fails, and
  then every enabled format is written.
\<close>

theorem save_all_outputs_stops_at_first_failure:
  assumes "fst (init ev0 config_override w0) = Inr p"
    and "\<forall>l. map_of (output_config p) ''image_mode'' \<noteq> Some (PList l)"
  shows "output_files (snd (save_all_outputs ev p doc f data w))
           = output_files w
             @ takeWhile (\<lambda>(path, c). \<not> write_fails ev path) (requested_outputs p doc f data) \<and>
         (fst (save_all_outputs ev p doc f data w) = Inr () \<longleftrightarrow>
            (\<forall>(path, c)\<in>set (requested_outputs p doc f data). \<not> write_fails ev path))"
proof -
  note keys = init_output_keys [OF assms(1)]
  from keys obtain sj where sj: "getitem (output_config p) ''save_json'' = Inr sj"
    by (auto simp: OUTPUT_CONFIG_def getitem_def)
  from keys obtain ind where ind: "getitem (output_config p) ''json_indent'' = Inr ind"
    by (auto simp: OUTPUT_CONFIG_def getitem_def)
  from keys obtain ea where ea: "getitem (output_config p) ''json_ensure_ascii'' = Inr ea"
    by (auto simp: OUTPUT_CONFIG_def getitem_def)
  from keys obtain imv where imv: "getitem (output_config p) ''image_mode'' = Inr imv"
    by (auto simp: OUTPUT_CONFIG_def getitem_def)
  from keys obtain sm where sm: "getitem (output_config p) ''save_markdown'' = Inr sm"
    by (auto simp: OUTPUT_CONFIG_def getitem_def)
  from keys obtain sh where sh: "getitem (output_config p) ''save_html'' = Inr sh"
    by (auto simp: OUTPUT_CONFIG_def getitem_def)
  from keys obtain st where st: "getitem (output_config p) ''save_text'' = Inr st"
    by (auto simp: OUTPUT_CONFIG_def getitem_def)
  from keys obtain ss where ss: "getitem (output_config p) ''save_summary'' = Inr ss"
    by (auto simp: OUTPUT_CONFIG_def getitem_def)
  have "\<forall>l. imv \<noteq> PList l"
    using assms(2) imv by (simp add: getitem_Inr_iff)
  note gv = image_mode_lookup [OF this]
  have m: "map_of (output_config p) ''save_json'' = Some sj"
    "map_of (output_config p) ''json_indent'' = Some ind"
    "map_of (output_config p) ''json_ensure_ascii'' = Some ea"
    "map_of (output_config p) ''image_mode'' = Some imv"
    "map_of (output_config p) ''save_markdown'' = Some sm"
    "map_of (output_config p) ''save_html'' = Some sh"
    "map_of (output_config p) ''save_text'' = Some st"
    "map_of (output_config p) ''save_summary'' = Some ss"
    using sj ind ea imv sm sh st ss by (simp_all add: getitem_Inr_iff)
  define mode where
    "mode = (case imv of PStr s \<Rightarrow> dict_get image_mode_map s PLACEHOLDER | _ \<Rightarrow> PLACEHOLDER)"
  have mode': "(case map_of (output_config p) ''image_mode'' of
                  Some (PStr s) \<Rightarrow> dict_get image_mode_map s PLACEHOLDER
                | _ \<Rightarrow> PLACEHOLDER) = mode"
    by (simp add: m mode_def split: pyval.splits)
  have req: "requested_outputs p doc f data =
      (if truthy sj
       then [(path_join (output_dir p) (path_stem f @ ''.json''), JsonDump data ind ea)] else [])
      @ (if truthy sm
         then [(path_join (output_dir p) (path_stem f @ ''.md''), MarkdownExport mode)] else [])
      @ (if truthy sh
         then [(path_join (output_dir p) (path_stem f @ ''.html''), HtmlExport mode)] else [])
      @ (if truthy st
         then [(path_join (output_dir p) (path_stem f @ ''.txt''),
                TextExport (export_to_markdown_strict doc))] else [])
      @ (if truthy ss
         then [(path_join (output_dir p) (path_stem f @ ''_report.txt''), SummaryReport data)]
         else [])"
    unfolding requested_outputs_def Let_def mode' by (simp add: m dict_get_def)
  have sav: "save_all_outputs ev p doc f data =
      sbind (if truthy sj
             then try_write ev (path_join (output_dir p) (path_stem f @ ''.json''))
                    (JsonDump data ind ea) ''JSON''
             else lift (Inr ())) (\<lambda>u.
      sbind (if truthy sm
             then try_write ev (path_join (output_dir p) (path_stem f @ ''.md''))
                    (MarkdownExport mode) ''Markdown''
             else lift (Inr ())) (\<lambda>u.
      sbind (if truthy sh
             then try_write ev (path_join (output_dir p) (path_stem f @ ''.html''))
                    (HtmlExport mode) ''HTML''
             else lift (Inr ())) (\<lambda>u.
      sbind (if truthy st
             then try_write ev (path_join (output_dir p) (path_stem f @ ''.txt''))
                    (TextExport (export_to_markdown_strict doc)) ''Text''
             else lift (Inr ())) (\<lambda>u.
        if truthy ss
        then try_write ev (path_join (output_dir p) (path_stem f @ ''_report.txt''))
               (SummaryReport data) ''Summary''
        else lift (Inr ())))))"
    unfolding save_all_outputs_def sj ind ea imv sm sh st ss ebind_Inr gv sbind_lift_Inr_eta
      mode_def ..
  show ?thesis
    unfolding sav req by (intro write_step write_last)
qed


lemma sample_init: "fst (init example_env None empty_world) = Inr (example_processor None)"
  by code_simp

lemma sample_output_config: "output_config (example_processor None) = OUTPUT_CONFIG"
  by code_simp

lemma sample_requested_outputs:
  "requested_outputs (example_processor None) example_document example_path example_payload =
     [(''output/report.json'', JsonDump example_payload (PInt 2) (PBool False)),
      (''output/report.md'', MarkdownExport PLACEHOLDER),
      (''output/report.html'', HtmlExport PLACEHOLDER),
      (''output/report.txt'', TextExport ''Introduction to the report''),
      (''output/report_report.txt'', SummaryReport example_payload)]"
  by code_simp

theorem save_all_outputs_stops_at_first_failure_witness:
  "fst (init example_env None empty_world) = Inr (example_processor None) \<and>
   map_of (output_config (example_processor None)) ''image_mode'' = Some (PStr ''placeholder'') \<and>
   output_files (snd (save_all_outputs
       (example_env\<lparr>write_fails := (\<lambda>f. f = ''output/report.md'')\<rparr>)
       (example_processor None) example_document example_path example_payload empty_world))
     = [(''output/report.json'', JsonDump example_payload (PInt 2) (PBool False))] \<and>
   fst (save_all_outputs
       (example_env\<lparr>write_fails := (\<lambda>f. f = ''output/report.md'')\<rparr>)
       (example_processor None) example_document example_path example_payload empty_world)
     \<noteq> Inr ()"
proof -
  have im: "map_of (output_config (example_processor None)) ''image_mode''
              = Some (PStr ''placeholder'')"
    by (simp add: sample_output_config OUTPUT_CONFIG_def)
  then have h2: "\<forall>l. map_of (output_config (example_processor None)) ''image_mode''
                   \<noteq> Some (PList l)"
    by simp
  note t = save_all_outputs_stops_at_first_failure [OF sample_init h2,
             of "example_env\<lparr>write_fails := (\<lambda>f. f = ''output/report.md'')\<rparr>"
                example_document example_path example_payload empty_world,
             unfolded sample_requested_outputs]
  from t have "output_files (snd (save_all_outputs
       (example_env\<lparr>write_fails := (\<lambda>f. f = ''output/report.md'')\<rparr>)
       (example_processor None) example_document example_path example_payload empty_world))
     = [(''output/report.json'', JsonDump example_payload (PInt 2) (PBool False))]"
    by (simp add: empty_world_def)
  moreover from t have "fst (save_all_outputs
       (example_env\<lparr>write_fails := (\<lambda>f. f = ''output/report.md'')\<rparr>)
       (example_processor None) example_document example_path example_payload empty_world)
     \<noteq> Inr ()"
    by simp
  ultimately show ?thesis using sample_init im by blast
qed

theorem write_failure_aborts_siblings_counterexample:
  "map_of (output_config (example_processor None)) ''save_markdown'' = Some (PBool True) \<and>
   map_of (output_config (example_processor None)) ''save_summary'' = Some (PBool True) \<and>
   write_fails (example_env\<lparr>write_fails := (\<lambda>f. f = ''output/report.json'')\<rparr>)
     ''output/report.json'' \<and>
   \<not> write_fails (example_env\<lparr>write_fails := (\<lambda>f. f = ''output/report.json'')\<rparr>)
     ''output/report.md'' \<and>
   \<not> write_fails (example_env\<lparr>write_fails := (\<lambda>f. f = ''output/report.json'')\<rparr>)
     ''output/report_report.txt'' \<and>
   save_all_outputs (example_env\<lparr>write_fails := (\<lambda>f. f = ''output/report.json'')\<rparr>)
     (example_processor None) example_document example_path example_payload empty_world
     = (Inl OSError, empty_world)"
  by code_simp

section \<open>The condition before the writer\<close>

lemma default_ceiling_validated:
  assumes "file_config p = FILE_CONFIG"
    and "st_size ev (path_str f) = Some n" and "n \<le> 104857600"
    and "lower (path_suffix f) = ''.pdf''"
  shows "validate_input_file ev p f w = (Inr True, w)"
proof -
  have g1: "getitem (file_config p) ''supported_extensions'' = Inr (PList [''.pdf''])"
    by (simp add: assms(1) getitem_def FILE_CONFIG_def)
  have g2: "getitem (file_config p) ''max_file_size_mb'' = Inr (PInt 100)"
    by (simp add: assms(1) getitem_def FILE_CONFIG_def)
  have "n < 2 ^ 53" using assms(3) by simp
  then have "file_size_mb n = of_nat n / 1048576"
    by (rule file_size_mb_exact)
  moreover have "(of_nat n :: rat) \<le> of_nat 104857600"
    using assms(3) by (simp only: of_nat_le_iff)
  ultimately have "\<not> of_int 100 < file_size_mb n"
    by simp
  then show ?thesis
    using assms(2,4) by (simp add: validate_input_file_typed [OF g1 g2])
qed

lemma process_pdf_converted:
  assumes "validate_input_file ev p f w = (Inr True, w)"
    and "engine_convert ev (converter p) f = Inr result"
    and "status_name result = ''SUCCESS''"
    and "extract_comprehensive_data ev p (result_document result) f = Inr data"
    and "any_output_flag p = Inr flag"
  shows "process_pdf ev p f w =
           (case (if flag
                  then save_all_outputs ev p (result_document result) f data
                         (call_engine f (emit (InfoStarting (path_name f)) w))
                  else (Inr (), call_engine f (emit (InfoStarting (path_name f)) w))) of
              (Inl e, w') \<Rightarrow> (Inr None, emit (ErrProcessingFailed e) w')
            | (Inr u, w') \<Rightarrow> (Inr (Some data), emit InfoCompleted w'))"
  using assms by (simp add: process_pdf_def process_body_def split: prod.splits sum.splits)

lemma any_output_flag_ignores_save_summary:
  "any_output_flag (p\<lparr>output_config := AList.update ''save_summary'' v (output_config p)\<rparr>)
     = any_output_flag p"
  by (simp add: any_output_flag_def getitem_def update_conv')

text \<open>
  C1. With \<^verbatim>\<open>save_json\<close>, \<^verbatim>\<open>save_markdown\<close>, \<^verbatim>\<open>save_html\<close> and \<^verbatim>\<open>save_text\<close> switched off and
  \<^verbatim>\<open>save_summary\<close> left on, the condition of \<^verbatim>\<open>process_pdf\<close> is false: the conversion
  succeeds, the payload is returned, and no file is written, although the writer, had it
  been called, would have written the report.
\<close>

theorem summary_only_writes_no_report:
  "map_of (output_config (example_processor (Some [(''output'',
       [(''save_json'', PBool False), (''save_markdown'', PBool False),
        (''save_html'', PBool False), (''save_text'', PBool False)])]))) ''save_summary''
     = Some (PBool True) \<and>
   any_output_flag (example_processor (Some [(''output'',
       [(''save_json'', PBool False), (''save_markdown'', PBool False),
        (''save_html'', PBool False), (''save_text'', PBool False)])])) = Inr False \<and>
   fst (process_pdf example_env (example_processor (Some [(''output'',
       [(''save_json'', PBool False), (''save_markdown'', PBool False),
        (''save_html'', PBool False), (''save_text'', PBool False)])]))
       example_path empty_world) = Inr (Some example_payload) \<and>
   output_files (snd (process_pdf example_env (example_processor (Some [(''output'',
       [(''save_json'', PBool False), (''save_markdown'', PBool False),
        (''save_html'', PBool False), (''save_text'', PBool False)])]))
       example_path empty_world)) = [] \<and>
   output_files (snd (save_all_outputs example_env (example_processor (Some [(''output'',
       [(''save_json'', PBool False), (''save_markdown'', PBool False),
        (''save_html'', PBool False), (''save_text'', PBool False)])]))
       example_document example_path example_payload empty_world))
     = [(''output/report_report.txt'', SummaryReport example_payload)]"
proof -
  let ?p = "example_processor (Some [(''output'',
       [(''save_json'', PBool False), (''save_markdown'', PBool False),
        (''save_html'', PBool False), (''save_text'', PBool False)])])"
  have s: "map_of (output_config ?p) ''save_summary'' = Some (PBool True)"
    by code_simp
  have a: "any_output_flag ?p = Inr False"
    by code_simp
  have fc: "file_config ?p = FILE_CONFIG"
    by code_simp
  have sz: "st_size example_env (path_str example_path) = Some 2048"
    by (simp add: example_env_def example_path_def)
  have v: "validate_input_file example_env ?p example_path empty_world = (Inr True, empty_world)"
    by (rule default_ceiling_validated [OF fc sz _ sample_lower_suffix]) simp
  have c: "engine_convert example_env (converter ?p) example_path
             = Inr \<lparr>status_name = ''SUCCESS'', result_document = example_document\<rparr>"
    by (simp add: example_env_def)
  have x: "extract_comprehensive_data example_env ?p
             (result_document \<lparr>status_name = ''SUCCESS'', result_document = example_document\<rparr>)
             example_path = Inr example_payload"
    by code_simp
  have r: "process_pdf example_env ?p example_path empty_world =
             (Inr (Some example_payload),
              emit InfoCompleted
                (call_engine example_path (emit (InfoStarting (path_name example_path)) empty_world)))"
    using process_pdf_converted [OF v c _ x a] by simp
  have w: "output_files (snd (save_all_outputs example_env ?p example_document example_path
             example_payload empty_world))
           = [(''output/report_report.txt'', SummaryReport example_payload)]"
    by code_simp
  from s a r w show ?thesis by (simp add: empty_world_def)
qed

end
